theory Spec2Isabelle
  imports Main "HOL-Library.Log_Nat"
begin

section \<open>Python numbers\<close>

text \<open>
  The backend computes with Python floats (IEEE binary64). A finite float is
  modelled by the rational number it denotes. Every arithmetic operation
  returns the exact result rounded to the nearest float, ties to the even
  significand: 53 bits in the normal range, and multiples of \<open>2^-1074\<close> below
  \<open>2^-1022\<close> (the subnormal numbers), so that a result too small for a float
  rounds to zero as on the machine. Overflow is not modelled: the model agrees
  with the machine as long as no result reaches \<open>2^1024\<close>; infinities and NaN
  are outside it.
\<close>

definition round_half_even :: "rat \<Rightarrow> int" where
  "round_half_even q =
     (let f = \<lfloor>q\<rfloor>; d = q - of_int f in
      if d < 1 / 2 then f
      else if 1 / 2 < d then f + 1
      else if even f then f else f + 1)"

definition pow2 :: "int \<Rightarrow> rat" where
  "pow2 e = (if 0 \<le> e then 2 ^ nat e else 1 / 2 ^ nat (- e))"

text \<open>\<open>ilog2 x\<close> is the exponent \<open>k\<close> with \<open>2^k \<le> |x| < 2^(k+1)\<close>, for \<open>x \<noteq> 0\<close>.\<close>

definition ilog2 :: "rat \<Rightarrow> int" where
  "ilog2 x =
     (let (a, b) = quotient_of \<bar>x\<bar>; k = bitlen a - bitlen b in
      if \<bar>x\<bar> < pow2 k then k - 1 else k)"

text \<open>\<open>b64 x\<close> is the float nearest to \<open>x\<close>: a multiple of \<open>2^e\<close>, where \<open>e\<close> is the
  exponent of the last of 53 significant bits and never less than \<open>-1074\<close>.\<close>

definition b64 :: "rat \<Rightarrow> rat" where
  "b64 x =
     (if x = 0 then 0
      else let e = max (ilog2 x - 52) (- 1074)
           in of_int (round_half_even (x / pow2 e)) * pow2 e)"

definition fadd :: "rat \<Rightarrow> rat \<Rightarrow> rat" where
  "fadd a b = b64 (a + b)"

definition fsub :: "rat \<Rightarrow> rat \<Rightarrow> rat" where
  "fsub a b = b64 (a - b)"

definition fmul :: "rat \<Rightarrow> rat \<Rightarrow> rat" where
  "fmul a b = b64 (a * b)"

text \<open>Float division by a divisor that is not zero; the division sites whose
  divisor can be zero raise \<open>ZeroDivisionError\<close> before they come here.\<close>

definition fdiv :: "rat \<Rightarrow> rat \<Rightarrow> rat" where
  "fdiv a b = b64 (a / b)"

text \<open>A decimal literal of the source, such as \<open>0.001\<close>, is the float nearest
  to it.\<close>

definition lit :: "rat \<Rightarrow> rat" where
  "lit q = b64 q"

text \<open>Python's \<open>round(x, ndigits)\<close> on a float: the exact value of \<open>x\<close> is rounded
  to \<open>ndigits\<close> decimals, ties to even, and the decimal result is converted back
  to the nearest float.\<close>

definition py_round :: "rat \<Rightarrow> nat \<Rightarrow> rat" where
  "py_round x ndigits = b64 (of_int (round_half_even (x * 10 ^ ndigits)) / 10 ^ ndigits)"

text \<open>numpy's \<open>round\<close>, behind \<open>Series.round\<close>: multiply by \<open>10^decimals\<close>, round
  to the nearest integer (ties to even), divide again, each step in float
  arithmetic.\<close>

definition np_round :: "rat \<Rightarrow> nat \<Rightarrow> rat" where
  "np_round x decimals =
     fdiv (of_int (round_half_even (fmul x (10 ^ decimals)))) (10 ^ decimals)"

text \<open>A list slice \<open>xs[-n:]\<close>: the last \<open>n\<close> elements, all of them when there are
  fewer.\<close>

definition last_n :: "nat \<Rightarrow> 'a list \<Rightarrow> 'a list" where
  "last_n n xs = drop (length xs - n) xs"

text \<open>\<open>sorted(xs, key=k, reverse=True)\<close>: descending by key; the sort is stable,
  and with \<open>reverse=True\<close> elements of equal key still keep their order.\<close>

definition sorted_desc :: "('a \<Rightarrow> nat) \<Rightarrow> 'a list \<Rightarrow> 'a list" where
  "sorted_desc k xs = sort_key (\<lambda>x. - int (k x)) xs"

subsection \<open>Strings\<close>

text \<open>\<open>str.lower\<close> and the substring test \<open>sub in s\<close>. A string is the list
  of its bytes; lower-casing changes the capital letters A to Z and leaves
  every other byte as it is (no character outside ASCII lower-cases to a
  letter of \<open>forex\<close>, the only word looked for).\<close>

definition lower_char :: "char \<Rightarrow> char" where
  "lower_char c =
     (let n = (of_char c :: nat) in if 65 \<le> n \<and> n \<le> 90 then char_of (n + 32) else c)"

definition str_lower :: "string \<Rightarrow> string" where
  "str_lower s = map lower_char s"

fun starts_with :: "string \<Rightarrow> string \<Rightarrow> bool" where
  "starts_with [] s = True"
| "starts_with (x # xs) [] = False"
| "starts_with (x # xs) (y # ys) = (x = y \<and> starts_with xs ys)"

fun str_contains :: "string \<Rightarrow> string \<Rightarrow> bool" where
  "str_contains sub [] = (sub = [])"
| "str_contains sub (y # ys) = (starts_with sub (y # ys) \<or> str_contains sub ys)"

subsection \<open>Errors\<close>

text \<open>
  \<open>ZeroDivisionError\<close> and \<open>TypeError\<close> are the exceptions the modelled code can
  raise. \<open>ZeroRiskDistance\<close> and \<open>InvalidInput\<close> are the typed errors that the
  specification names; no function of the source raises them.
\<close>

datatype error = ZeroDivisionError | TypeError | ZeroRiskDistance | InvalidInput

section \<open>Data\<close>

text \<open>One row of the \<open>price_data\<close> frame; the frame is the list of its rows in
  time order, \<open>iloc[i]\<close> is the \<open>i\<close>-th row and \<open>index[i]\<close> its timestamp.\<close>

record candle =
  timestamp :: int
  Open :: rat
  High :: rat
  Low :: rat
  Close :: rat
  Volume :: rat

record order_block =
  ob_type :: string
  ob_level :: rat
  ob_strength :: string
  ob_timestamp :: int

text \<open>The \<open>description\<close> entry of a liquidity zone, a text rendering of level
  and strength, is left out.\<close>

record liquidity_zone =
  lz_type :: string
  lz_level :: rat
  lz_strength :: nat

record fair_value_gap =
  fvg_type :: string
  fvg_upper :: rat
  fvg_lower :: rat
  fvg_midpoint :: rat
  fvg_size :: rat

text \<open>The entries of \<open>market_data\<close> and \<open>analysis\<close> that the calculators read with
  \<open>dict.get\<close>. \<open>None\<close> is an absent key. The \<open>rsi\<close> entry, when present, is a
  number or Python's \<open>None\<close> (the indicator fetcher stores \<open>None\<close> for an
  undefined RSI).\<close>

datatype pyval = PyNone | PyNum rat

record indicators =
  ind_trend :: "string option"
  ind_rsi :: "pyval option"

record market_data =
  asset_type :: "string option"
  indicators :: "indicators option"

record analysis =
  confluence_factors :: "string list option"

record targets =
  tp1 :: rat
  tp2 :: rat
  tp3 :: rat

record trade_setup =
  ts_bias :: string
  ts_entry :: rat
  ts_stop_loss :: rat
  ts_targets :: targets
  ts_position_size :: rat
  ts_risk_amount :: rat
  ts_risk_reward_ratios :: "rat list"
  ts_pip_risk :: rat

section \<open>SmartMoneyAnalyzer\<close>

text \<open>
  Each detector runs its loop inside \<open>try\<close>/\<open>except Exception\<close> and returns
  what it has collected so far when something raises. On a frame whose price
  columns hold finite numbers nothing in the loops raises, since every index
  stays within the frame; so the model has no error branch here.
\<close>

subsection \<open>find_order_blocks\<close>

text \<open>The body of the loop at index \<open>i\<close>: the block it appends, if any.\<close>

definition order_block_at :: "candle list \<Rightarrow> nat \<Rightarrow> order_block option" where
  "order_block_at price_data i =
     (let c0 = price_data ! i; c1 = price_data ! (i + 1); c2 = price_data ! (i + 2) in
      if Close c0 < Open c0 \<and> Close c1 > Open c1 \<and> Close c2 > Close c1 then
        Some \<lparr>ob_type = ''bullish'', ob_level = Low c0,
              ob_strength =
                (if \<bar>fsub (Close c2) (Close c0)\<bar> > fmul (Close c0) (lit (2 / 1000))
                 then ''strong'' else ''medium''),
              ob_timestamp = timestamp c0\<rparr>
      else if Close c0 > Open c0 \<and> Close c1 < Open c1 \<and> Close c2 < Close c1 then
        Some \<lparr>ob_type = ''bearish'', ob_level = High c0,
              ob_strength =
                (if \<bar>fsub (Close c0) (Close c2)\<bar> > fmul (Close c0) (lit (2 / 1000))
                 then ''strong'' else ''medium''),
              ob_timestamp = timestamp c0\<rparr>
      else None)"

definition append_opt :: "'a list \<Rightarrow> 'a option \<Rightarrow> 'a list" where
  "append_opt xs r = (case r of None \<Rightarrow> xs | Some x \<Rightarrow> xs @ [x])"

definition find_order_blocks :: "candle list \<Rightarrow> order_block list" where
  "find_order_blocks price_data =
     (let order_blocks =
            foldl (\<lambda>order_blocks i. append_opt order_blocks (order_block_at price_data i))
              [] [2..<length price_data - 2]
      in if order_blocks \<noteq> [] then last_n 5 order_blocks else [])"

subsection \<open>find_liquidity_zones\<close>

text \<open>
  \<open>Series.value_counts()\<close> of pandas: one entry per distinct value with the
  number of its occurrences, most frequent first. The distinct values are
  collected in the order of their first occurrence, and the sort by count
  keeps that order among values of equal count.
\<close>

definition first_seen :: "'a list \<Rightarrow> 'a list" where
  "first_seen xs = rev (remdups (rev xs))"

definition value_counts :: "rat list \<Rightarrow> (rat \<times> nat) list" where
  "value_counts xs = sorted_desc snd (map (\<lambda>v. (v, count_list xs v)) (first_seen xs))"

text \<open>The two loops over \<open>high_counts.items()\<close> and \<open>low_counts.items()\<close>.\<close>

definition add_zones :: "string \<Rightarrow> liquidity_zone list \<Rightarrow> (rat \<times> nat) list \<Rightarrow> liquidity_zone list" where
  "add_zones side liquidity_zones counts =
     foldl (\<lambda>zones (price, count).
              if count \<ge> 2
              then zones @ [\<lparr>lz_type = side, lz_level = price, lz_strength = count\<rparr>]
              else zones)
       liquidity_zones counts"

definition liquidity_pool :: "candle list \<Rightarrow> liquidity_zone list" where
  "liquidity_pool price_data =
     (let highs = map (\<lambda>c. np_round (High c) 2) price_data;
          high_counts = value_counts highs;
          liquidity_zones = add_zones ''buy_side'' [] high_counts;
          lows = map (\<lambda>c. np_round (Low c) 2) price_data;
          low_counts = value_counts lows
      in add_zones ''sell_side'' liquidity_zones low_counts)"

definition find_liquidity_zones :: "candle list \<Rightarrow> liquidity_zone list" where
  "find_liquidity_zones price_data = take 5 (sorted_desc lz_strength (liquidity_pool price_data))"

subsection \<open>calculate_fair_value_gaps\<close>

definition fvg_at :: "candle list \<Rightarrow> nat \<Rightarrow> fair_value_gap option" where
  "fvg_at price_data i =
     (let prev = price_data ! (i - 1); cur = price_data ! i; nxt = price_data ! (i + 1) in
      if Low nxt > High prev then
        (let gap_size = fsub (Low nxt) (High prev) in
         if gap_size > fmul (Close cur) (lit (1 / 1000)) then
           Some \<lparr>fvg_type = ''bullish'', fvg_upper = Low nxt, fvg_lower = High prev,
                 fvg_midpoint = fdiv (fadd (Low nxt) (High prev)) 2, fvg_size = gap_size\<rparr>
         else None)
      else if High nxt < Low prev then
        (let gap_size = fsub (Low prev) (High nxt) in
         if gap_size > fmul (Close cur) (lit (1 / 1000)) then
           Some \<lparr>fvg_type = ''bearish'', fvg_upper = Low prev, fvg_lower = High nxt,
                 fvg_midpoint = fdiv (fadd (Low prev) (High nxt)) 2, fvg_size = gap_size\<rparr>
         else None)
      else None)"

definition all_fvgs :: "candle list \<Rightarrow> fair_value_gap list" where
  "all_fvgs price_data =
     foldl (\<lambda>fvgs i. append_opt fvgs (fvg_at price_data i)) [] [1..<length price_data - 1]"

definition calculate_fair_value_gaps :: "candle list \<Rightarrow> fair_value_gap list" where
  "calculate_fair_value_gaps price_data =
     (let fvgs = all_fvgs price_data in if fvgs \<noteq> [] then last_n 3 fvgs else [])"

section \<open>TradingAI\<close>

subsection \<open>_calculate_trade_parameters\<close>

definition stop_distance_of :: "rat \<Rightarrow> rat" where
  "stop_distance_of current_price =
     (let atr_percent = lit (1 / 2) in fmul current_price (fdiv atr_percent 100))"

text \<open>Entry, stop loss and the three targets, before rounding.\<close>

definition price_levels :: "rat \<Rightarrow> string \<Rightarrow> rat \<times> rat \<times> rat \<times> rat \<times> rat" where
  "price_levels current_price bias =
     (let stop_distance = stop_distance_of current_price in
      if bias = ''bullish'' then
        (let entry = fsub current_price (fmul current_price (lit (1 / 1000)));
             stop_loss = fsub entry stop_distance;
             tp1 = fadd entry stop_distance;
             tp2 = fadd entry (fmul stop_distance 2);
             tp3 = fadd entry (fmul stop_distance 3)
         in (entry, stop_loss, tp1, tp2, tp3))
      else
        (let entry = fadd current_price (fmul current_price (lit (1 / 1000)));
             stop_loss = fadd entry stop_distance;
             tp1 = fsub entry stop_distance;
             tp2 = fsub entry (fmul stop_distance 2);
             tp3 = fsub entry (fmul stop_distance 3)
         in (entry, stop_loss, tp1, tp2, tp3)))"

definition pip_risk_of :: "rat \<Rightarrow> string \<Rightarrow> rat" where
  "pip_risk_of current_price bias =
     (let (entry, stop_loss, tp1, tp2, tp3) = price_levels current_price bias
      in \<bar>fsub entry stop_loss\<bar>)"

definition risk_amount_of :: "rat \<Rightarrow> rat \<Rightarrow> rat" where
  "risk_amount_of balance risk_percent = fmul balance (fdiv risk_percent 100)"

text \<open>\<open>'forex' in market_data.get('asset_type', '').lower()\<close>\<close>

definition is_forex :: "market_data \<Rightarrow> bool" where
  "is_forex market_data =
     str_contains ''forex''
       (str_lower (case asset_type market_data of None \<Rightarrow> [] | Some s \<Rightarrow> s))"

definition calculate_trade_parameters ::
  "rat \<Rightarrow> rat \<Rightarrow> rat \<Rightarrow> string \<Rightarrow> market_data \<Rightarrow> error + trade_setup" where
  "calculate_trade_parameters current_price balance risk_percent bias market_data =
     (let (entry, stop_loss, t1, t2, t3) = price_levels current_price bias;
          risk_amount = risk_amount_of balance risk_percent;
          pip_risk = pip_risk_of current_price bias;
          divisor = (if is_forex market_data
                     then (let pip_value = 10 in fmul (fmul pip_risk 10000) pip_value)
                     else pip_risk)
      in if divisor = 0 then Inl ZeroDivisionError
         else
           (let position_size = fdiv risk_amount divisor in
            Inr \<lparr>ts_bias = bias,
                 ts_entry = py_round entry 2,
                 ts_stop_loss = py_round stop_loss 2,
                 ts_targets = \<lparr>tp1 = py_round t1 2, tp2 = py_round t2 2, tp3 = py_round t3 2\<rparr>,
                 ts_position_size = py_round position_size 2,
                 ts_risk_amount = py_round risk_amount 2,
                 ts_risk_reward_ratios = [1, 2, 3],
                 ts_pip_risk =
                   py_round (if is_forex market_data then fmul pip_risk 10000 else pip_risk) 1\<rparr>))"

subsection \<open>_calculate_confidence\<close>

text \<open>The three lookups of the scorer:
  \<open>analysis.get('confluence_factors', [])\<close>,
  \<open>market_data.get('indicators', {}).get('trend')\<close> and
  \<open>market_data.get('indicators', {}).get('rsi', 50)\<close>.\<close>

definition get_confluence_factors :: "analysis \<Rightarrow> string list" where
  "get_confluence_factors analysis =
     (case confluence_factors analysis of None \<Rightarrow> [] | Some fs \<Rightarrow> fs)"

definition get_trend :: "market_data \<Rightarrow> string option" where
  "get_trend market_data =
     (case indicators market_data of None \<Rightarrow> None | Some ind \<Rightarrow> ind_trend ind)"

definition get_rsi :: "market_data \<Rightarrow> pyval" where
  "get_rsi market_data =
     (case indicators market_data of
        None \<Rightarrow> PyNum 50
      | Some ind \<Rightarrow> (case ind_rsi ind of None \<Rightarrow> PyNum 50 | Some v \<Rightarrow> v))"

text \<open>\<open>randint\<close> is the value that \<open>random.randint(-5, 10)\<close> returns in the call.
  Comparing \<open>None\<close> with a number raises \<open>TypeError\<close>.\<close>

definition calculate_confidence :: "analysis \<Rightarrow> market_data \<Rightarrow> int \<Rightarrow> error + int" where
  "calculate_confidence analysis market_data randint =
     (let confidence = 60;
          confidence = (if length (get_confluence_factors analysis) > 3
                        then confidence + 10 else confidence);
          confidence = (if length (get_confluence_factors analysis) > 5
                        then confidence + 10 else confidence);
          confidence = (if get_trend market_data \<in> {Some ''bullish'', Some ''bearish''}
                        then confidence + 5 else confidence)
      in case get_rsi market_data of
           PyNone \<Rightarrow> Inl TypeError
         | PyNum rsi \<Rightarrow>
             (let confidence = (if 30 < rsi \<and> rsi < 70 then confidence + 5 else confidence);
                  confidence = confidence + randint
              in Inr (min 95 (max 50 confidence))))"

section \<open>Example data\<close>

text \<open>A candle for the examples, with a fixed volume.\<close>

definition bar :: "int \<Rightarrow> rat \<Rightarrow> rat \<Rightarrow> rat \<Rightarrow> rat \<Rightarrow> candle" where
  "bar t o' h l c = \<lparr>timestamp = t, Open = o', High = h, Low = l, Close = c, Volume = 1000\<rparr>"

section \<open>Facts about the float model\<close>

lemma b64_zero: "b64 0 = 0"
  by (simp add: b64_def)

lemma pow2_pos: "0 < pow2 e"
  by (simp add: pow2_def)

lemma pow2_powi: "pow2 e = 2 powi e"
  by (simp add: pow2_def power_int_def inverse_eq_divide power_one_over)

lemma pow2_mono: "a \<le> b \<Longrightarrow> pow2 a \<le> pow2 b"
  unfolding pow2_powi by (rule power_int_increasing) simp_all

lemma round_half_even_zero: "round_half_even q = 0 \<Longrightarrow> \<bar>q\<bar> \<le> 1 / 2"
  unfolding round_half_even_def Let_def
  by (auto split: if_splits) linarith+

lemma quotient_of_abs_pos:
  assumes "x \<noteq> 0" "quotient_of \<bar>x\<bar> = (a, b)"
  shows "0 < a" "0 < b" "\<bar>x\<bar> = of_int a / of_int b"
proof -
  show b: "0 < b" using assms(2) quotient_of_denom_pos by blast
  show e: "\<bar>x\<bar> = of_int a / of_int b" using assms(2) quotient_of_div by blast
  have "0 < \<bar>x\<bar>" using assms(1) by simp
  then show "0 < a" using b e
    by (simp add: zero_less_divide_iff)
qed

lemma ilog2_lower:
  assumes "x \<noteq> 0"
  shows "pow2 (ilog2 x) \<le> \<bar>x\<bar>"
proof -
  obtain a b where q: "quotient_of \<bar>x\<bar> = (a, b)" by (cases "quotient_of \<bar>x\<bar>")
  note ab = quotient_of_abs_pos[OF assms q]
  define k where "k = bitlen a - bitlen b"
  show ?thesis
  proof (cases "\<bar>x\<bar> < pow2 k")
    case False
    then show ?thesis by (simp add: ilog2_def q k_def)
  next
    case True
    then have il: "ilog2 x = k - 1" by (simp add: ilog2_def q k_def)
    have la: "0 < bitlen a" "0 < bitlen b" using ab bitlen_eq_zero_iff[of a] bitlen_eq_zero_iff[of b] bitlen_nonneg[of a] bitlen_nonneg[of b]
      by simp_all
    have "(2::int) ^ nat (bitlen a - 1) \<le> a" using bitlen_bounds[of a] ab by simp
    then have lo: "(2::rat) ^ nat (bitlen a - 1) \<le> of_int a"
      by (metis of_int_le_iff of_int_numeral of_int_power)
    have "b < 2 ^ nat (bitlen b)" using bitlen_bounds[of b] ab by simp
    then have hi: "of_int b \<le> (2::rat) ^ nat (bitlen b)"
      by (metis less_imp_le of_int_le_iff of_int_numeral of_int_power)
    have "k - 1 = (bitlen a - 1) - bitlen b" by (simp add: k_def)
    then have "pow2 (k - 1) = 2 powi ((bitlen a - 1) - bitlen b)"
      by (simp only: pow2_powi)
    also have "\<dots> = 2 powi (bitlen a - 1) / 2 powi (bitlen b)"
      by (rule power_int_diff) simp
    also have "\<dots> = 2 ^ nat (bitlen a - 1) / 2 ^ nat (bitlen b)"
      using la by (simp add: power_int_def)
    also have "\<dots> \<le> of_int a / of_int b"
      using lo hi ab by (intro frac_le) simp_all
    finally show ?thesis using ab il by simp
  qed
qed

text \<open>The spacing of the floats around \<open>x\<close> is at most \<open>|x| / 2^52\<close> in the normal
  range, and \<open>2^-1074\<close> below it.\<close>

lemma b64_exponent:
  assumes "x \<noteq> 0" and "e = max (ilog2 x - 52) (- 1074)"
  shows "b64 x = of_int (round_half_even (x / pow2 e)) * pow2 e"
    and "- 1074 \<le> e"
    and "pow2 e * 2 ^ 52 \<le> \<bar>x\<bar> \<or> e = - 1074"
proof -
  show "b64 x = of_int (round_half_even (x / pow2 e)) * pow2 e"
    using assms by (simp add: b64_def Let_def)
  show "- 1074 \<le> e" using assms(2) by simp
  have "pow2 (ilog2 x - 52) * 2 ^ 52 = pow2 (ilog2 x)"
    by (simp add: pow2_powi power_int_diff)
  then have "pow2 (ilog2 x - 52) * 2 ^ 52 \<le> \<bar>x\<bar>"
    using ilog2_lower[OF assms(1)] by simp
  then show "pow2 e * 2 ^ 52 \<le> \<bar>x\<bar> \<or> e = - 1074"
    using assms(2) by (cases "ilog2 x - 52 \<le> - 1074") (simp_all add: max_def)
qed

text \<open>A number of at least the smallest positive float is not rounded to zero,
  and a float other than zero is at least that large.\<close>

lemma b64_nonzero:
  assumes "pow2 (- 1074) \<le> \<bar>x\<bar>"
  shows "b64 x \<noteq> 0"
proof
  assume z: "b64 x = 0"
  have nz: "x \<noteq> 0" using assms pow2_pos[of "- 1074"] by auto
  define e where "e = max (ilog2 x - 52) (- 1074)"
  note ex = b64_exponent[OF nz e_def]
  have pe: "0 < pow2 e" by (rule pow2_pos)
  from z ex(1) pe have "round_half_even (x / pow2 e) = 0" by simp
  then have "\<bar>x / pow2 e\<bar> \<le> 1 / 2" by (rule round_half_even_zero)
  then have small: "\<bar>x\<bar> * 2 \<le> pow2 e" using pe by (simp add: abs_divide pos_divide_le_eq)
  from ex(3) show False
  proof
    assume "pow2 e * 2 ^ 52 \<le> \<bar>x\<bar>"
    with small pe show False by simp
  next
    assume "e = - 1074"
    with small assms pe show False by simp
  qed
qed

lemma b64_quantum:
  assumes "b64 x \<noteq> 0"
  shows "pow2 (- 1074) \<le> \<bar>b64 x\<bar>"
proof -
  have nz: "x \<noteq> 0" using assms by (auto simp add: b64_zero)
  define e where "e = max (ilog2 x - 52) (- 1074)"
  define r where "r = round_half_even (x / pow2 e)"
  note ex = b64_exponent[OF nz e_def]
  have pe: "0 < pow2 e" by (rule pow2_pos)
  have b: "b64 x = of_int r * pow2 e" using ex(1) by (simp add: r_def)
  with assms have "r \<noteq> 0" by auto
  then have "1 \<le> \<bar>r\<bar>" by simp
  then have "(1::rat) \<le> \<bar>of_int r\<bar>" by (metis of_int_1 of_int_abs of_int_le_iff)
  then have "1 * pow2 e \<le> \<bar>of_int r\<bar> * pow2 e" using pe by (intro mult_right_mono) simp_all
  then have "pow2 e \<le> \<bar>b64 x\<bar>" using pe by (simp add: b abs_mult)
  with pow2_mono[OF ex(2)] show ?thesis by simp
qed

lemma fmul_zero_left: "fmul 0 c = 0"
  by (simp add: fmul_def b64_zero)

text \<open>In the normal range the relative error of rounding is at most \<open>2^-53\<close>.\<close>

lemma round_half_even_error: "\<bar>of_int (round_half_even q) - q\<bar> \<le> 1 / 2"
proof -
  define f where "f = \<lfloor>q\<rfloor>"
  have "of_int f \<le> q" "q < of_int f + 1" by (simp_all add: f_def) linarith
  then show ?thesis
    unfolding round_half_even_def Let_def f_def[symmetric]
    by (auto simp add: abs_if)
qed

lemma b64_error:
  assumes "pow2 (- 1022) \<le> \<bar>x\<bar>"
  shows "\<bar>b64 x - x\<bar> \<le> \<bar>x\<bar> / 2 ^ 53"
proof -
  have nz: "x \<noteq> 0" using assms pow2_pos[of "- 1022"] by auto
  define e where "e = max (ilog2 x - 52) (- 1074)"
  define m where "m = x / pow2 e"
  note ex = b64_exponent[OF nz e_def]
  have pe: "0 < pow2 e" by (rule pow2_pos)
  have x: "x = m * pow2 e" using pe by (simp add: m_def)
  have "b64 x - x = (of_int (round_half_even m) - m) * pow2 e"
    using ex(1) by (simp add: m_def[symmetric] x[symmetric] algebra_simps)
  then have "\<bar>b64 x - x\<bar> = \<bar>of_int (round_half_even m) - m\<bar> * pow2 e"
    using pe by (simp add: abs_mult)
  also have "\<dots> \<le> (1 / 2) * pow2 e"
    using round_half_even_error[of m] pe by (intro mult_right_mono) simp_all
  finally have 1: "\<bar>b64 x - x\<bar> \<le> pow2 e / 2" by simp
  have "pow2 (- 1074) * 2 ^ 52 = pow2 (- 1022)"
    by (simp add: pow2_def)
  with ex(3) assms have "pow2 e * 2 ^ 52 \<le> \<bar>x\<bar>" by auto
  then have "pow2 e / 2 \<le> \<bar>x\<bar> / 2 ^ 53" by simp
  with 1 show ?thesis by linarith
qed

lemma b64_bounds_pos:
  assumes "pow2 (- 1022) \<le> x"
  shows "x * 999999 \<le> b64 x * 1000000" and "b64 x * 1000000 \<le> x * 1000001"
proof -
  have pos: "0 < x" using assms pow2_pos[of "- 1022"] by linarith
  then have "x / 2 ^ 53 \<le> x / 1000000" by (intro divide_left_mono) simp_all
  with b64_error[of x] assms pos have "\<bar>b64 x - x\<bar> \<le> x / 1000000" by simp
  then have "x - b64 x \<le> x / 1000000" and "b64 x - x \<le> x / 1000000"
    by linarith+
  then show "x * 999999 \<le> b64 x * 1000000" and "b64 x * 1000000 \<le> x * 1000001"
    by simp_all
qed

text \<open>The two literals of the calculator, and the range of prices in which no
  operation of it leaves the normal range.\<close>

lemma literal_values:
  "lit (1 / 1000) = 1152921504606847 / 1152921504606846976"
  "fdiv (lit (1 / 2)) 100 = 5764607523034235 / 1152921504606846976"
  by code_simp+

lemma literal_bounds:
  "1 < lit (1 / 1000) * 1001" "lit (1 / 1000) * 999 < 1"
  "1 < fdiv (lit (1 / 2)) 100 * 201" "fdiv (lit (1 / 2)) 100 * 199 < 1"
  unfolding literal_values by simp_all

lemma scale_bounds:
  fixes p c :: rat
  assumes "0 < p" "1 < c * m" "c * n < 1"
  shows "p < p * c * m" "p * c * n < p"
proof -
  have "p * 1 < p * (c * m)" using assms(1,2) by (rule mult_strict_left_mono[rotated])
  then show "p < p * c * m" by (simp add: mult.assoc)
  have "p * (c * n) < p * 1" using assms(1,3) by (rule mult_strict_left_mono[rotated])
  then show "p * c * n < p" by (simp add: mult.assoc)
qed


lemma normal_range_bound: "pow2 (- 1022) * 10000 \<le> 1 / 10 ^ 300"
  by (simp add: pow2_def)


section \<open>The trade-parameter calculator\<close>

subsection \<open>The forex marker on sample asset classes\<close>

lemma is_forex_stock: "\<not> is_forex \<lparr>asset_type = Some ''stock'', indicators = ind\<rparr>"
  by (simp add: is_forex_def str_lower_def lower_char_def)

lemma lower_Forex: "str_lower ''Forex major'' = ''forex major''"
  by code_simp

lemma is_forex_Forex: "is_forex \<lparr>asset_type = Some ''Forex major'', indicators = ind\<rparr>"
  by (simp add: is_forex_def lower_Forex)

lemma is_forex_absent: "\<not> is_forex \<lparr>asset_type = None, indicators = ind\<rparr>"
  by (simp add: is_forex_def str_lower_def)

subsection \<open>The result in closed form\<close>

text \<open>The pip risk is a float. When it is not zero, neither divisor is, and the
  calculator returns the rounded levels, sizes and amounts.\<close>

lemma forex_divisor_nonzero:
  assumes "pow2 (- 1074) \<le> \<bar>pip\<bar>"
  shows "fmul (fmul pip 10000) 10 \<noteq> 0"
proof -
  have q: "0 < pow2 (- 1074)" by (rule pow2_pos)
  have "pow2 (- 1074) \<le> \<bar>pip * 10000\<bar>" using assms q by (simp add: abs_mult)
  then have "fmul pip 10000 \<noteq> 0" unfolding fmul_def by (rule b64_nonzero)
  then have "pow2 (- 1074) \<le> \<bar>fmul pip 10000\<bar>" unfolding fmul_def by (rule b64_quantum)
  then have "pow2 (- 1074) \<le> \<bar>fmul pip 10000 * 10\<bar>" using q by (simp add: abs_mult)
  then show ?thesis unfolding fmul_def by (rule b64_nonzero)
qed

lemma pip_risk_quantum:
  "pip_risk_of current_price bias \<noteq> 0 \<Longrightarrow> pow2 (- 1074) \<le> \<bar>pip_risk_of current_price bias\<bar>"
  unfolding pip_risk_of_def fsub_def
  by (auto simp add: Let_def split: prod.splits dest: b64_quantum)

lemma calculate_trade_parameters_closed_form:
  assumes levels: "price_levels current_price bias = (entry, stop_loss, t1, t2, t3)"
    and pip: "pip_risk_of current_price bias = pip"
    and nz: "pip \<noteq> 0"
  shows "calculate_trade_parameters current_price balance risk_percent bias market_data =
     Inr \<lparr>ts_bias = bias,
          ts_entry = py_round entry 2,
          ts_stop_loss = py_round stop_loss 2,
          ts_targets = \<lparr>tp1 = py_round t1 2, tp2 = py_round t2 2, tp3 = py_round t3 2\<rparr>,
          ts_position_size =
            py_round (fdiv (risk_amount_of balance risk_percent)
                        (if is_forex market_data then fmul (fmul pip 10000) 10 else pip)) 2,
          ts_risk_amount = py_round (risk_amount_of balance risk_percent) 2,
          ts_risk_reward_ratios = [1, 2, 3],
          ts_pip_risk = py_round (if is_forex market_data then fmul pip 10000 else pip) 1\<rparr>"
proof -
  have "pow2 (- 1074) \<le> \<bar>pip\<bar>" using pip_risk_quantum[of current_price bias] pip nz by simp
  from forex_divisor_nonzero[OF this] nz show ?thesis
    by (simp add: calculate_trade_parameters_def levels pip Let_def)
qed

subsection \<open>The worked example: price 100, balance 10000, risk 2.5 percent\<close>

lemma stop_distance_100: "stop_distance_of 100 = 1 / 2"
  by code_simp

lemma levels_bullish_100:
  "price_levels 100 ''bullish'' =
     (lit (999 / 10), lit (994 / 10), lit (1004 / 10), lit (1009 / 10), lit (1014 / 10))"
  by code_simp

lemma pip_risk_bullish_100: "pip_risk_of 100 ''bullish'' = 1 / 2"
  by code_simp

lemma risk_amount_10000: "risk_amount_of 10000 (5 / 2) = 250"
  by code_simp

lemma py_round_100:
  "py_round (lit (999 / 10)) 2 = lit (999 / 10)"
  "py_round (lit (994 / 10)) 2 = lit (994 / 10)"
  "py_round (lit (1004 / 10)) 2 = lit (1004 / 10)"
  "py_round (lit (1009 / 10)) 2 = lit (1009 / 10)"
  "py_round (lit (1014 / 10)) 2 = lit (1014 / 10)"
  "py_round (fdiv 250 (1 / 2)) 2 = 500"
  "py_round 250 2 = 250"
  "py_round (1 / 2) 1 = 1 / 2"
  by code_simp+

lemma half_nonzero: "((1::rat) / 2 = 0) = False"
  by simp

text \<open>
  Claim C1. For bias \<open>bullish\<close>, current price 100, balance 10000, risk percent
  2.5 and the asset class \<open>stock\<close>, the stop distance is 0.5 and the calculator
  returns entry 99.9, stop loss 99.4, targets 100.4, 100.9 and 101.4, risk
  amount 250.0, pip risk 0.5 and position size 500.0. Each decimal is the
  float that Python writes that way (\<open>lit\<close>); the result is computed in
  float arithmetic, whatever the other entries of \<open>market_data\<close> are.
\<close>

theorem trade_parameters_example:
  "stop_distance_of 100 = 1 / 2 \<and>
   calculate_trade_parameters 100 10000 (5 / 2) ''bullish''
       \<lparr>asset_type = Some ''stock'', indicators = ind\<rparr> =
     Inr \<lparr>ts_bias = ''bullish'', ts_entry = lit (999 / 10), ts_stop_loss = lit (994 / 10),
          ts_targets = \<lparr>tp1 = lit (1004 / 10), tp2 = lit (1009 / 10), tp3 = lit (1014 / 10)\<rparr>,
          ts_position_size = 500, ts_risk_amount = 250,
          ts_risk_reward_ratios = [1, 2, 3], ts_pip_risk = 1 / 2\<rparr>"
  unfolding calculate_trade_parameters_def levels_bullish_100 pip_risk_bullish_100
    risk_amount_10000 stop_distance_100
  by (simp only: is_forex_stock half_nonzero py_round_100 Let_def prod.case if_False simp_thms)

subsection \<open>A risk distance of zero\<close>

lemma levels_zero: "price_levels 0 bias = (0, 0, 0, 0, 0)"
  by (simp add: price_levels_def stop_distance_of_def fmul_def fadd_def fsub_def b64_zero Let_def)

lemma pip_risk_zero: "pip_risk_of 0 bias = 0"
  by (simp add: pip_risk_of_def levels_zero fsub_def b64_zero)

text \<open>
  Claim C3 says that a pip risk of 0 makes the calculator fail with the typed
  error \<open>ZeroRiskDistance\<close> instead of dividing. The source has no such guard:
  at current price 0 the pip risk is 0, the position-size division is carried
  out and Python raises \<open>ZeroDivisionError\<close>.
\<close>

theorem zero_risk_distance_counterexample:
  "pip_risk_of 0 ''bullish'' = 0 \<and>
   calculate_trade_parameters 0 10000 (5 / 2) ''bullish''
       \<lparr>asset_type = Some ''stock'', indicators = None\<rparr> = Inl ZeroDivisionError \<and>
   calculate_trade_parameters 0 10000 (5 / 2) ''bullish''
       \<lparr>asset_type = Some ''stock'', indicators = None\<rparr> \<noteq> Inl ZeroRiskDistance"
  by (simp add: calculate_trade_parameters_def levels_zero pip_risk_zero is_forex_stock)

text \<open>
  Claim C3, amended. Whenever the computed pip risk is 0, the calculator
  performs the position-size division and fails with \<open>ZeroDivisionError\<close>, in
  the forex branch as in the other; it returns no trade setup and no infinite
  position size.
\<close>

theorem zero_pip_risk_raises:
  "pip_risk_of current_price bias = 0 \<Longrightarrow>
   calculate_trade_parameters current_price balance risk_percent bias market_data =
     Inl ZeroDivisionError"
  by (simp add: calculate_trade_parameters_def fmul_zero_left split: prod.splits)

theorem zero_pip_risk_raises_witness:
  "pip_risk_of 0 ''bearish'' = 0 \<and>
   calculate_trade_parameters 0 5000 1 ''bearish''
       \<lparr>asset_type = Some ''Forex major'', indicators = None\<rparr> = Inl ZeroDivisionError"
  using zero_pip_risk_raises[of 0 "''bearish''" 5000 1
      "\<lparr>asset_type = Some ''Forex major'', indicators = None\<rparr>"]
  by (simp add: pip_risk_zero)

subsection \<open>No validation of the inputs\<close>

lemma levels_bullish_neg100:
  "price_levels (- 100) ''bullish'' =
     (- lit (999 / 10), - lit (994 / 10), - lit (1004 / 10), - lit (1009 / 10), - lit (1014 / 10))"
  by code_simp

lemma pip_risk_bullish_neg100: "pip_risk_of (- 100) ''bullish'' = 1 / 2"
  by code_simp

lemma py_round_neg100:
  "py_round (- lit (999 / 10)) 2 = - lit (999 / 10)"
  "py_round (- lit (994 / 10)) 2 = - lit (994 / 10)"
  "py_round (- lit (1004 / 10)) 2 = - lit (1004 / 10)"
  "py_round (- lit (1009 / 10)) 2 = - lit (1009 / 10)"
  "py_round (- lit (1014 / 10)) 2 = - lit (1014 / 10)"
  by code_simp+

lemma risk_amounts_invalid:
  "risk_amount_of (- 10000) (5 / 2) = - 250"
  "risk_amount_of 10000 150 = 15000"
  "py_round (fdiv (- 250) (1 / 2)) 2 = - 500"
  "py_round (- 250) 2 = - 250"
  "py_round (fdiv 15000 (1 / 2)) 2 = 30000"
  "py_round 15000 2 = 15000"
  by code_simp+

text \<open>
  Claim C4 says that a non-positive current price, a risk percent outside
  (0,100] or a negative balance is rejected with the typed error
  \<open>InvalidInput\<close>, and that no trade setup is returned. The source checks none
  of them: with current price -100, with balance -10000 and with risk percent
  150 (each time the other inputs as in the worked example) a trade setup is
  returned.
\<close>

theorem invalid_input_counterexample:
  "calculate_trade_parameters (- 100) 10000 (5 / 2) ''bullish''
       \<lparr>asset_type = Some ''stock'', indicators = None\<rparr> =
     Inr \<lparr>ts_bias = ''bullish'', ts_entry = - lit (999 / 10), ts_stop_loss = - lit (994 / 10),
          ts_targets = \<lparr>tp1 = - lit (1004 / 10), tp2 = - lit (1009 / 10), tp3 = - lit (1014 / 10)\<rparr>,
          ts_position_size = 500, ts_risk_amount = 250,
          ts_risk_reward_ratios = [1, 2, 3], ts_pip_risk = 1 / 2\<rparr> \<and>
   calculate_trade_parameters 100 (- 10000) (5 / 2) ''bullish''
       \<lparr>asset_type = Some ''stock'', indicators = None\<rparr> =
     Inr \<lparr>ts_bias = ''bullish'', ts_entry = lit (999 / 10), ts_stop_loss = lit (994 / 10),
          ts_targets = \<lparr>tp1 = lit (1004 / 10), tp2 = lit (1009 / 10), tp3 = lit (1014 / 10)\<rparr>,
          ts_position_size = - 500, ts_risk_amount = - 250,
          ts_risk_reward_ratios = [1, 2, 3], ts_pip_risk = 1 / 2\<rparr> \<and>
   calculate_trade_parameters 100 10000 150 ''bullish''
       \<lparr>asset_type = Some ''stock'', indicators = None\<rparr> =
     Inr \<lparr>ts_bias = ''bullish'', ts_entry = lit (999 / 10), ts_stop_loss = lit (994 / 10),
          ts_targets = \<lparr>tp1 = lit (1004 / 10), tp2 = lit (1009 / 10), tp3 = lit (1014 / 10)\<rparr>,
          ts_position_size = 30000, ts_risk_amount = 15000,
          ts_risk_reward_ratios = [1, 2, 3], ts_pip_risk = 1 / 2\<rparr>"
proof -
  have nz: "(1::rat) / 2 \<noteq> 0" by simp
  note a = calculate_trade_parameters_closed_form[OF levels_bullish_neg100 pip_risk_bullish_neg100 nz]
  note b = calculate_trade_parameters_closed_form[OF levels_bullish_100 pip_risk_bullish_100 nz]
  show ?thesis
    by (simp only: a b is_forex_stock if_False py_round_100 py_round_neg100 risk_amount_10000
        risk_amounts_invalid simp_thms)
qed

text \<open>
  Claim C4, amended. The calculator validates none of its inputs and has no
  \<open>InvalidInput\<close> error: for every current price, balance and risk percent
  (non-positive prices, negative balances and risk percents outside (0,100]
  included) it returns a trade setup whenever the computed pip risk is not 0,
  and fails with \<open>ZeroDivisionError\<close> when it is 0.
\<close>

theorem no_input_validation:
  "(pip_risk_of current_price bias \<noteq> 0 \<longrightarrow>
      (\<exists>setup. calculate_trade_parameters current_price balance risk_percent bias market_data =
         Inr setup)) \<and>
   (pip_risk_of current_price bias = 0 \<longrightarrow>
      calculate_trade_parameters current_price balance risk_percent bias market_data =
        Inl ZeroDivisionError) \<and>
   calculate_trade_parameters current_price balance risk_percent bias market_data \<noteq>
     Inl InvalidInput"
proof (cases "pip_risk_of current_price bias = 0")
  case True
  then have "calculate_trade_parameters current_price balance risk_percent bias market_data =
      Inl ZeroDivisionError"
    by (simp add: calculate_trade_parameters_def fmul_zero_left split: prod.splits)
  with True show ?thesis by simp
next
  case False
  obtain entry stop_loss t1 t2 t3
    where "price_levels current_price bias = (entry, stop_loss, t1, t2, t3)"
    by (cases "price_levels current_price bias")
  from calculate_trade_parameters_closed_form[OF this refl False]
  show ?thesis using False by simp
qed

theorem no_input_validation_witness:
  "pip_risk_of (- 100) ''bullish'' \<noteq> 0 \<and>
   (\<exists>setup. calculate_trade_parameters (- 100) (- 10000) 150 ''bullish''
       \<lparr>asset_type = None, indicators = None\<rparr> = Inr setup) \<and>
   pip_risk_of 0 ''bullish'' = 0 \<and>
   calculate_trade_parameters 0 (- 10000) 150 ''bullish''
       \<lparr>asset_type = None, indicators = None\<rparr> = Inl ZeroDivisionError"
  using no_input_validation[of "- 100" "''bullish''" "- 10000" 150
      "\<lparr>asset_type = None, indicators = None\<rparr>"]
    no_input_validation[of 0 "''bullish''" "- 10000" 150
      "\<lparr>asset_type = None, indicators = None\<rparr>"]
  by (simp add: pip_risk_bullish_neg100 pip_risk_zero)

subsection \<open>Position sizing by asset class\<close>

text \<open>
  Claim C9. When the asset-class string, lower-cased, contains \<open>forex\<close>, the
  position size is the risk amount divided by pip risk times 10000 times 10,
  and the reported pip risk is the entry-stop distance times 10000 rounded to
  1 decimal; for every other asset class (an absent one included) the position
  size is the risk amount divided by the pip risk, and the pip risk is
  reported in price units rounded to 1 decimal. Entry, stop loss, targets,
  position size and risk amount are rounded to 2 decimals. The pip risk is
  taken to be other than 0, since otherwise nothing is returned.
\<close>

theorem position_sizing_by_asset_class:
  assumes "price_levels current_price bias = (entry, stop_loss, t1, t2, t3)"
    and "pip_risk = \<bar>fsub entry stop_loss\<bar>"
    and "pip_risk \<noteq> 0"
    and "risk_amount = fmul balance (fdiv risk_percent 100)"
    and "asset_class = (case asset_type market_data of None \<Rightarrow> [] | Some s \<Rightarrow> s)"
  shows "\<exists>setup.
     calculate_trade_parameters current_price balance risk_percent bias market_data = Inr setup \<and>
     (if str_contains ''forex'' (str_lower asset_class)
      then ts_position_size setup = py_round (fdiv risk_amount (fmul (fmul pip_risk 10000) 10)) 2 \<and>
           ts_pip_risk setup = py_round (fmul pip_risk 10000) 1
      else ts_position_size setup = py_round (fdiv risk_amount pip_risk) 2 \<and>
           ts_pip_risk setup = py_round pip_risk 1) \<and>
     ts_entry setup = py_round entry 2 \<and>
     ts_stop_loss setup = py_round stop_loss 2 \<and>
     ts_targets setup = \<lparr>tp1 = py_round t1 2, tp2 = py_round t2 2, tp3 = py_round t3 2\<rparr> \<and>
     ts_risk_amount setup = py_round risk_amount 2"
proof -
  have pip: "pip_risk_of current_price bias = pip_risk"
    by (simp add: pip_risk_of_def assms(1,2))
  have forex: "is_forex market_data = str_contains ''forex'' (str_lower asset_class)"
    by (simp add: is_forex_def assms(5))
  show ?thesis
    unfolding calculate_trade_parameters_closed_form[OF assms(1) pip assms(3)]
    by (simp add: forex risk_amount_of_def assms(4))
qed

lemma pip_distance_100: "\<bar>fsub (lit (999 / 10)) (lit (994 / 10))\<bar> = 1 / 2"
  by code_simp

lemma forex_sizes_100:
  "fmul 10000 (fdiv (5 / 2) 100) = 250"
  "py_round (fdiv 250 (fmul (fmul (1 / 2) 10000) 10)) 2 = lit (1 / 100)"
  "py_round (fmul (1 / 2) 10000) 1 = 5000"
  by code_simp+

theorem position_sizing_by_asset_class_witness:
  "(\<exists>setup. calculate_trade_parameters 100 10000 (5 / 2) ''bullish''
        \<lparr>asset_type = Some ''Forex major'', indicators = None\<rparr> = Inr setup \<and>
      ts_position_size setup = lit (1 / 100) \<and> ts_pip_risk setup = 5000 \<and>
      ts_entry setup = lit (999 / 10)) \<and>
   (\<exists>setup. calculate_trade_parameters 100 10000 (5 / 2) ''bullish''
        \<lparr>asset_type = Some ''stock'', indicators = None\<rparr> = Inr setup \<and>
      ts_position_size setup = 500 \<and> ts_pip_risk setup = 1 / 2 \<and>
      ts_entry setup = lit (999 / 10))"
proof -
  have nz: "(1::rat) / 2 \<noteq> 0" by simp
  have c1: "str_contains ''forex'' (str_lower ''Forex major'')"
    by (simp add: lower_Forex)
  have c2: "\<not> str_contains ''forex'' (str_lower ''stock'')"
    using is_forex_stock by (simp add: is_forex_def)
  from position_sizing_by_asset_class[OF levels_bullish_100 pip_distance_100[symmetric] nz
      forex_sizes_100(1)[symmetric],
      of "''Forex major''" "\<lparr>asset_type = Some ''Forex major'', indicators = None\<rparr>"]
  have a: "\<exists>setup. calculate_trade_parameters 100 10000 (5 / 2) ''bullish''
        \<lparr>asset_type = Some ''Forex major'', indicators = None\<rparr> = Inr setup \<and>
      ts_position_size setup = lit (1 / 100) \<and> ts_pip_risk setup = 5000 \<and>
      ts_entry setup = lit (999 / 10)"
    by (simp only: c1 if_True forex_sizes_100 py_round_100) auto
  from position_sizing_by_asset_class[OF levels_bullish_100 pip_distance_100[symmetric] nz
      forex_sizes_100(1)[symmetric],
      of "''stock''" "\<lparr>asset_type = Some ''stock'', indicators = None\<rparr>"]
  have b: "\<exists>setup. calculate_trade_parameters 100 10000 (5 / 2) ''bullish''
        \<lparr>asset_type = Some ''stock'', indicators = None\<rparr> = Inr setup \<and>
      ts_position_size setup = 500 \<and> ts_pip_risk setup = 1 / 2 \<and>
      ts_entry setup = lit (999 / 10)"
    by (simp only: c2 if_False py_round_100) auto
  from a b show ?thesis by (rule conjI)
qed

subsection \<open>A bias other than bullish\<close>

lemma price_levels_non_bullish:
  "bias \<noteq> ''bullish'' \<Longrightarrow> price_levels current_price bias = price_levels current_price ''bearish''"
  by (simp add: price_levels_def)

text \<open>Before the rounding to 2 decimals, and for a price in a range where no
  operation underflows or overflows, the levels of the bearish branch lie on
  the expected sides of each other, rounding errors included.\<close>

lemma bearish_levels_ordered:
  assumes lo: "1 / 10 ^ 300 \<le> current_price"
    and hi: "current_price \<le> 10 ^ 300"
    and "stop_distance = stop_distance_of current_price"
    and "entry = fadd current_price (fmul current_price (lit (1 / 1000)))"
  shows "current_price < entry \<and> entry < fadd entry stop_distance \<and>
         fsub entry stop_distance < entry \<and>
         fsub entry (fmul stop_distance 2) < entry \<and>
         fsub entry (fmul stop_distance 3) < entry"
proof -
  define q where "q = pow2 (- 1022)"
  have q: "0 < q" unfolding q_def by (rule pow2_pos)
  have pq: "q * 10000 \<le> current_price"
    using lo normal_range_bound unfolding q_def by linarith
  have p: "0 < current_price" using pq q by linarith
  note bounds = b64_bounds_pos[folded q_def]
  define t where "t = current_price * lit (1 / 1000)"
  define a where "a = b64 t"
  define w where "w = current_price * fdiv (lit (1 / 2)) 100"
  have t: "current_price < t * 1001" "t * 999 < current_price"
    unfolding t_def using scale_bounds[OF p literal_bounds(1,2)] by simp_all
  have tq: "q \<le> t" using t(1) pq q by linarith
  have a: "t * 999999 \<le> a * 1000000" "a * 1000000 \<le> t * 1000001"
    unfolding a_def using bounds[OF tq] by simp_all
  have w: "current_price < w * 201" "w * 199 < current_price"
    unfolding w_def using scale_bounds[OF p literal_bounds(3,4)] by simp_all
  have wq: "q \<le> w" using w(1) pq q by linarith
  have sd_eq: "stop_distance = b64 w"
    by (simp add: assms(3) stop_distance_of_def fmul_def w_def Let_def)
  have sd: "w * 999999 \<le> stop_distance * 1000000" "stop_distance * 1000000 \<le> w * 1000001"
    unfolding sd_eq using bounds[OF wq] by simp_all
  have e_eq: "entry = b64 (current_price + a)"
    by (simp add: assms(4) fadd_def fmul_def a_def t_def)
  have apos: "0 < a" using a(1) tq q by linarith
  have "q \<le> current_price + a" using pq q apos by linarith
  from bounds[OF this]
  have e: "current_price * 999999 + a * 999999 \<le> entry * 1000000"
    "entry * 1000000 \<le> current_price * 1000001 + a * 1000001"
    unfolding e_eq by (simp_all add: algebra_simps)
  have 1: "current_price < entry" using e(1) a(1) t(1) p by linarith
  have e_hi: "entry < current_price * 2" using e(2) a(2) t(2) p by linarith
  have sd_lo: "current_price < stop_distance * 202" using sd(1) w(1) p by linarith
  have sd_hi: "stop_distance * 198 < current_price" using sd(2) w(2) p by linarith
  have 2: "entry < fadd entry stop_distance"
  proof -
    have "q \<le> entry + stop_distance" using 1 pq q sd_lo by linarith
    from bounds(1)[OF this]
    have "entry * 999999 + stop_distance * 999999 \<le> fadd entry stop_distance * 1000000"
      by (simp add: fadd_def algebra_simps)
    then show ?thesis using e_hi sd_lo p by linarith
  qed
  have below: "fsub entry s < entry" if s: "current_price < s * 203" "s * 2 < current_price" for s
  proof -
    have "q \<le> entry - s" using 1 s pq q by linarith
    from bounds(2)[OF this]
    have "fsub entry s * 1000000 \<le> entry * 1000001 - s * 1000001"
      by (simp add: fsub_def algebra_simps)
    then show ?thesis using e_hi s p by linarith
  qed
  have sdq: "q \<le> stop_distance * 2" "q \<le> stop_distance * 3" using sd_lo pq q by linarith+
  have s2: "stop_distance * 1999998 \<le> fmul stop_distance 2 * 1000000"
    "fmul stop_distance 2 * 1000000 \<le> stop_distance * 2000002"
    unfolding fmul_def using bounds[OF sdq(1)] by simp_all
  have s3: "stop_distance * 2999997 \<le> fmul stop_distance 3 * 1000000"
    "fmul stop_distance 3 * 1000000 \<le> stop_distance * 3000003"
    unfolding fmul_def using bounds[OF sdq(2)] by simp_all
  have 3: "fsub entry stop_distance < entry"
    using sd_lo sd_hi p by (intro below) linarith+
  have 4: "fsub entry (fmul stop_distance 2) < entry"
    using sd_lo sd_hi s2 p by (intro below) linarith+
  have 5: "fsub entry (fmul stop_distance 3) < entry"
    using sd_lo sd_hi s3 p by (intro below) linarith+
  from 1 2 3 4 5 show ?thesis by simp
qed

text \<open>The bearish branch at the prices 1.085 and 1.0039, operation by operation;
  the fractions are the floats that the operations return.\<close>

lemma stop_distance_1085:
  "stop_distance_of (lit (217 / 200)) = 6254599162492145 / 1152921504606846976"
  by code_simp

lemma bearish_steps_1085:
  "fmul (lit (217 / 200)) (lit (1 / 1000)) = 1250919832498429 / 1152921504606846976"
  "fadd (lit (217 / 200)) (1250919832498429 / 1152921504606846976) =
     4891292001292685 / 4503599627370496"
  "fadd (4891292001292685 / 4503599627370496) (6254599162492145 / 1152921504606846976) =
     2457862014635585 / 2251799813685248"
  "fsub (4891292001292685 / 4503599627370496) (6254599162492145 / 1152921504606846976) =
     608357496664275 / 562949953421312"
  "fsub (4891292001292685 / 4503599627370496) (fmul (6254599162492145 / 1152921504606846976) 2) =
     4842427945335715 / 4503599627370496"
  "fsub (4891292001292685 / 4503599627370496) (fmul (6254599162492145 / 1152921504606846976) 3) =
     2408997958678615 / 2251799813685248"
  by code_simp+

lemma levels_bearish_1085:
  "price_levels (lit (217 / 200)) ''bearish'' =
     (4891292001292685 / 4503599627370496, 2457862014635585 / 2251799813685248,
      608357496664275 / 562949953421312, 4842427945335715 / 4503599627370496,
      2408997958678615 / 2251799813685248)"
proof -
  have ne: "(''bearish'' = ''bullish'') = False" by simp
  show ?thesis
    unfolding price_levels_def stop_distance_1085
    by (simp only: ne if_False Let_def bearish_steps_1085)
qed

lemma pip_distance_1085:
  "\<bar>fsub (4891292001292685 / 4503599627370496) (2457862014635585 / 2251799813685248)\<bar> =
     24432027978485 / 4503599627370496"
  by code_simp

lemma pip_risk_bearish_1085:
  "pip_risk_of (lit (217 / 200)) ''bearish'' = 24432027978485 / 4503599627370496"
  unfolding pip_risk_of_def levels_bearish_1085
  by (simp only: Let_def prod.case pip_distance_1085)

lemma py_round_1085:
  "py_round (4891292001292685 / 4503599627370496) 2 = lit (109 / 100)"
  "py_round (2457862014635585 / 2251799813685248) 2 = lit (109 / 100)"
  "py_round (608357496664275 / 562949953421312) 2 = lit (108 / 100)"
  "py_round (4842427945335715 / 4503599627370496) 2 = lit (108 / 100)"
  "py_round (2408997958678615 / 2251799813685248) 2 = lit (107 / 100)"
  "py_round (fdiv 250 (24432027978485 / 4503599627370496)) 2 = lit (4608295 / 100)"
  "py_round (24432027978485 / 4503599627370496) 1 = 0"
  by code_simp+

lemma stop_distance_10039:
  "stop_distance_of (lit (10039 / 10000)) = 5787089492374069 / 1152921504606846976"
  by code_simp

lemma bearish_steps_10039:
  "fmul (lit (10039 / 10000)) (lit (1 / 1000)) = 4629671593899255 / 4611686018427387904"
  "fadd (lit (10039 / 10000)) (4629671593899255 / 4611686018427387904) =
     2262842414791579 / 2251799813685248"
  "fadd (2262842414791579 / 2251799813685248) (5787089492374069 / 1152921504606846976) =
     568536330989093 / 562949953421312"
  "fsub (2262842414791579 / 2251799813685248) (5787089492374069 / 1152921504606846976) =
     1125769752813393 / 1125899906842624"
  "fsub (2262842414791579 / 2251799813685248) (fmul (5787089492374069 / 1152921504606846976) 2) =
     8960946385847971 / 9007199254740992"
  "fsub (2262842414791579 / 2251799813685248) (fmul (5787089492374069 / 1152921504606846976) 3) =
     8915734749188799 / 9007199254740992"
  by code_simp+

lemma levels_bearish_10039:
  "price_levels (lit (10039 / 10000)) ''bearish'' =
     (2262842414791579 / 2251799813685248, 568536330989093 / 562949953421312,
      1125769752813393 / 1125899906842624, 8960946385847971 / 9007199254740992,
      8915734749188799 / 9007199254740992)"
proof -
  have ne: "(''bearish'' = ''bullish'') = False" by simp
  show ?thesis
    unfolding price_levels_def stop_distance_10039
    by (simp only: ne if_False Let_def bearish_steps_10039)
qed

lemma pip_distance_10039:
  "\<bar>fsub (2262842414791579 / 2251799813685248) (568536330989093 / 562949953421312)\<bar> =
     11302909164793 / 2251799813685248"
  by code_simp

lemma pip_risk_bearish_10039:
  "pip_risk_of (lit (10039 / 10000)) ''bearish'' = 11302909164793 / 2251799813685248"
  unfolding pip_risk_of_def levels_bearish_10039
  by (simp only: Let_def prod.case pip_distance_10039)

lemma py_round_10039:
  "py_round (2262842414791579 / 2251799813685248) 2 = 1"
  "py_round (568536330989093 / 562949953421312) 2 = lit (101 / 100)"
  "py_round (1125769752813393 / 1125899906842624) 2 = 1"
  "py_round (8960946385847971 / 9007199254740992) 2 = lit (99 / 100)"
  "py_round (8915734749188799 / 9007199254740992) 2 = lit (99 / 100)"
  "py_round (fdiv 250 (11302909164793 / 2251799813685248)) 2 = lit (4980576 / 100)"
  "py_round (11302909164793 / 2251799813685248) 1 = 0"
  by code_simp+

text \<open>
  Claim C10 says that for every bias other than \<open>bullish\<close> the calculator takes
  the bearish branch, with the entry above the current price, the stop loss
  above the entry by the stop distance and all three targets below the entry.
  The branch is taken, but the levels are returned rounded to 2 decimals, and
  then they need not lie so. At price 1.085 with bias \<open>neutral\<close> the returned
  entry and stop loss are both 1.09 and the first two targets are both 1.08;
  at price 1.0039 the returned entry is 1.0, below the current price, and the
  first target is 1.0 as well.
\<close>

theorem bearish_levels_after_rounding_counterexample:
  "calculate_trade_parameters (lit (217 / 200)) 10000 (5 / 2) ''neutral''
       \<lparr>asset_type = Some ''stock'', indicators = None\<rparr> =
     Inr \<lparr>ts_bias = ''neutral'', ts_entry = lit (109 / 100), ts_stop_loss = lit (109 / 100),
          ts_targets = \<lparr>tp1 = lit (108 / 100), tp2 = lit (108 / 100), tp3 = lit (107 / 100)\<rparr>,
          ts_position_size = lit (4608295 / 100), ts_risk_amount = 250,
          ts_risk_reward_ratios = [1, 2, 3], ts_pip_risk = 0\<rparr> \<and>
   calculate_trade_parameters (lit (10039 / 10000)) 10000 (5 / 2) ''neutral''
       \<lparr>asset_type = Some ''stock'', indicators = None\<rparr> =
     Inr \<lparr>ts_bias = ''neutral'', ts_entry = 1, ts_stop_loss = lit (101 / 100),
          ts_targets = \<lparr>tp1 = 1, tp2 = lit (99 / 100), tp3 = lit (99 / 100)\<rparr>,
          ts_position_size = lit (4980576 / 100), ts_risk_amount = 250,
          ts_risk_reward_ratios = [1, 2, 3], ts_pip_risk = 0\<rparr> \<and>
   1 < lit (10039 / 10000)"
proof -
  have n: "''neutral'' \<noteq> ''bullish''" by simp
  have l1: "price_levels (lit (217 / 200)) ''neutral'' =
     (4891292001292685 / 4503599627370496, 2457862014635585 / 2251799813685248,
      608357496664275 / 562949953421312, 4842427945335715 / 4503599627370496,
      2408997958678615 / 2251799813685248)"
    unfolding price_levels_non_bullish[OF n] by (rule levels_bearish_1085)
  have p1: "pip_risk_of (lit (217 / 200)) ''neutral'' = 24432027978485 / 4503599627370496"
    unfolding pip_risk_of_def price_levels_non_bullish[OF n]
    using pip_risk_bearish_1085 by (simp only: pip_risk_of_def)
  have nz1: "(24432027978485::rat) / 4503599627370496 \<noteq> 0" by simp
  have l2: "price_levels (lit (10039 / 10000)) ''neutral'' =
     (2262842414791579 / 2251799813685248, 568536330989093 / 562949953421312,
      1125769752813393 / 1125899906842624, 8960946385847971 / 9007199254740992,
      8915734749188799 / 9007199254740992)"
    unfolding price_levels_non_bullish[OF n] by (rule levels_bearish_10039)
  have p2: "pip_risk_of (lit (10039 / 10000)) ''neutral'' = 11302909164793 / 2251799813685248"
    unfolding pip_risk_of_def price_levels_non_bullish[OF n]
    using pip_risk_bearish_10039 by (simp only: pip_risk_of_def)
  have nz2: "(11302909164793::rat) / 2251799813685248 \<noteq> 0" by simp
  have a: "calculate_trade_parameters (lit (217 / 200)) 10000 (5 / 2) ''neutral''
       \<lparr>asset_type = Some ''stock'', indicators = None\<rparr> =
     Inr \<lparr>ts_bias = ''neutral'', ts_entry = lit (109 / 100), ts_stop_loss = lit (109 / 100),
          ts_targets = \<lparr>tp1 = lit (108 / 100), tp2 = lit (108 / 100), tp3 = lit (107 / 100)\<rparr>,
          ts_position_size = lit (4608295 / 100), ts_risk_amount = 250,
          ts_risk_reward_ratios = [1, 2, 3], ts_pip_risk = 0\<rparr>"
    unfolding calculate_trade_parameters_closed_form[OF l1 p1 nz1]
    by (simp only: is_forex_stock if_False py_round_1085 py_round_100 risk_amount_10000)
  have b: "calculate_trade_parameters (lit (10039 / 10000)) 10000 (5 / 2) ''neutral''
       \<lparr>asset_type = Some ''stock'', indicators = None\<rparr> =
     Inr \<lparr>ts_bias = ''neutral'', ts_entry = 1, ts_stop_loss = lit (101 / 100),
          ts_targets = \<lparr>tp1 = 1, tp2 = lit (99 / 100), tp3 = lit (99 / 100)\<rparr>,
          ts_position_size = lit (4980576 / 100), ts_risk_amount = 250,
          ts_risk_reward_ratios = [1, 2, 3], ts_pip_risk = 0\<rparr>"
    unfolding calculate_trade_parameters_closed_form[OF l2 p2 nz2]
    by (simp only: is_forex_stock if_False py_round_10039 py_round_100 risk_amount_10000)
  have c: "1 < lit (10039 / 10000)" by code_simp
  from a b c show ?thesis by (intro conjI)
qed

text \<open>
  Claim C10, amended. For every bias string other than \<open>bullish\<close>, the strings
  outside bullish and bearish included, the calculator takes the bearish
  branch: with the entry computed as the current price plus 0.1 percent of
  it, the stop loss as that entry plus the stop distance and the targets as
  the entry minus one, two and three stop distances, it returns each of them
  rounded to 2 decimals, together with the sizes computed from them, and it
  fails with \<open>ZeroDivisionError\<close> when the pip risk is 0. The result is the one
  for \<open>bearish\<close>, except that the bias string is echoed as given. Before the
  rounding, and for a current price between \<open>10^-300\<close> and \<open>10^300\<close>, the entry lies
  above the price, the stop loss above the entry and each target below the
  entry; after the rounding neighbouring levels can coincide.
\<close>

theorem non_bullish_bias_takes_bearish_branch:
  assumes "bias \<noteq> ''bullish''"
    and "stop_distance = stop_distance_of current_price"
    and "entry = fadd current_price (fmul current_price (lit (1 / 1000)))"
    and "stop_loss = fadd entry stop_distance"
    and "pip_risk = \<bar>fsub entry stop_loss\<bar>"
  shows "(pip_risk \<noteq> 0 \<longrightarrow>
            calculate_trade_parameters current_price balance risk_percent bias market_data =
              Inr \<lparr>ts_bias = bias,
                   ts_entry = py_round entry 2,
                   ts_stop_loss = py_round stop_loss 2,
                   ts_targets =
                     \<lparr>tp1 = py_round (fsub entry stop_distance) 2,
                      tp2 = py_round (fsub entry (fmul stop_distance 2)) 2,
                      tp3 = py_round (fsub entry (fmul stop_distance 3)) 2\<rparr>,
                   ts_position_size =
                     py_round (fdiv (risk_amount_of balance risk_percent)
                                 (if is_forex market_data then fmul (fmul pip_risk 10000) 10
                                  else pip_risk)) 2,
                   ts_risk_amount = py_round (risk_amount_of balance risk_percent) 2,
                   ts_risk_reward_ratios = [1, 2, 3],
                   ts_pip_risk =
                     py_round (if is_forex market_data then fmul pip_risk 10000 else pip_risk) 1\<rparr>) \<and>
         (pip_risk = 0 \<longrightarrow>
            calculate_trade_parameters current_price balance risk_percent bias market_data =
              Inl ZeroDivisionError) \<and>
         calculate_trade_parameters current_price balance risk_percent bias market_data =
           map_sum id (\<lambda>setup. setup\<lparr>ts_bias := bias\<rparr>)
             (calculate_trade_parameters current_price balance risk_percent ''bearish'' market_data) \<and>
         (1 / 10 ^ 300 \<le> current_price \<and> current_price \<le> 10 ^ 300 \<longrightarrow>
            current_price < entry \<and> entry < stop_loss \<and>
            fsub entry stop_distance < entry \<and>
            fsub entry (fmul stop_distance 2) < entry \<and>
            fsub entry (fmul stop_distance 3) < entry)"
proof -
  have levels: "price_levels current_price bias =
      (entry, stop_loss, fsub entry stop_distance,
       fsub entry (fmul stop_distance 2), fsub entry (fmul stop_distance 3))"
    using assms(1-4) by (simp add: price_levels_def Let_def)
  have pip: "pip_risk_of current_price bias = pip_risk"
    by (simp add: pip_risk_of_def levels assms(5))
  have returned: "calculate_trade_parameters current_price balance risk_percent bias market_data =
              Inr \<lparr>ts_bias = bias,
                   ts_entry = py_round entry 2,
                   ts_stop_loss = py_round stop_loss 2,
                   ts_targets =
                     \<lparr>tp1 = py_round (fsub entry stop_distance) 2,
                      tp2 = py_round (fsub entry (fmul stop_distance 2)) 2,
                      tp3 = py_round (fsub entry (fmul stop_distance 3)) 2\<rparr>,
                   ts_position_size =
                     py_round (fdiv (risk_amount_of balance risk_percent)
                                 (if is_forex market_data then fmul (fmul pip_risk 10000) 10
                                  else pip_risk)) 2,
                   ts_risk_amount = py_round (risk_amount_of balance risk_percent) 2,
                   ts_risk_reward_ratios = [1, 2, 3],
                   ts_pip_risk =
                     py_round (if is_forex market_data then fmul pip_risk 10000 else pip_risk) 1\<rparr>"
    if "pip_risk \<noteq> 0"
    by (rule calculate_trade_parameters_closed_form[OF levels pip that])
  have raises: "calculate_trade_parameters current_price balance risk_percent bias market_data =
              Inl ZeroDivisionError" if "pip_risk = 0"
    using that pip by (simp add: calculate_trade_parameters_def fmul_zero_left split: prod.splits)
  have l: "price_levels current_price bias = price_levels current_price ''bearish''"
    using assms(1) by (rule price_levels_non_bullish)
  then have p: "pip_risk_of current_price bias = pip_risk_of current_price ''bearish''"
    by (simp add: pip_risk_of_def)
  have same: "calculate_trade_parameters current_price balance risk_percent bias market_data =
           map_sum id (\<lambda>setup. setup\<lparr>ts_bias := bias\<rparr>)
             (calculate_trade_parameters current_price balance risk_percent ''bearish'' market_data)"
    by (simp add: calculate_trade_parameters_def l p Let_def split: prod.splits)
  have ordered: "current_price < entry \<and> entry < stop_loss \<and>
            fsub entry stop_distance < entry \<and>
            fsub entry (fmul stop_distance 2) < entry \<and>
            fsub entry (fmul stop_distance 3) < entry"
    if "1 / 10 ^ 300 \<le> current_price \<and> current_price \<le> 10 ^ 300"
    using bearish_levels_ordered[OF _ _ assms(2,3)] that unfolding assms(4) by blast
  from returned raises same ordered show ?thesis by blast
qed

text \<open>The bearish branch at price 100, operation by operation.\<close>

lemma bearish_steps_100:
  "fmul 100 (lit (1 / 1000)) = lit (1 / 10)"
  "fadd 100 (lit (1 / 10)) = lit (1001 / 10)"
  "fadd (lit (1001 / 10)) (1 / 2) = lit (1006 / 10)"
  "fsub (lit (1001 / 10)) (1 / 2) = lit (996 / 10)"
  "fsub (lit (1001 / 10)) (fmul (1 / 2) 2) = lit (991 / 10)"
  "fsub (lit (1001 / 10)) (fmul (1 / 2) 3) = lit (986 / 10)"
  by code_simp+

lemma pip_distance_bearish_100: "\<bar>fsub (lit (1001 / 10)) (lit (1006 / 10))\<bar> = 1 / 2"
  by code_simp

lemma py_round_bearish_100:
  "py_round (lit (1001 / 10)) 2 = lit (1001 / 10)"
  "py_round (lit (1006 / 10)) 2 = lit (1006 / 10)"
  "py_round (lit (996 / 10)) 2 = lit (996 / 10)"
  "py_round (lit (991 / 10)) 2 = lit (991 / 10)"
  "py_round (lit (986 / 10)) 2 = lit (986 / 10)"
  by code_simp+

lemma stop_distance_zero: "stop_distance_of 0 = 0"
  by (simp add: stop_distance_of_def fmul_zero_left)

lemma bearish_steps_zero:
  "fadd 0 (fmul 0 (lit (1 / 1000))) = 0" "fadd 0 0 = 0" "\<bar>fsub 0 0\<bar> = 0"
  by (simp_all add: fadd_def fsub_def fmul_zero_left b64_zero)

theorem non_bullish_bias_takes_bearish_branch_witness:
  "''neutral'' \<noteq> ''bullish'' \<and> '''' \<noteq> ''bullish'' \<and>
   calculate_trade_parameters 100 10000 (5 / 2) ''''
       \<lparr>asset_type = Some ''stock'', indicators = None\<rparr> =
     Inr \<lparr>ts_bias = '''', ts_entry = lit (1001 / 10), ts_stop_loss = lit (1006 / 10),
          ts_targets = \<lparr>tp1 = lit (996 / 10), tp2 = lit (991 / 10), tp3 = lit (986 / 10)\<rparr>,
          ts_position_size = 500, ts_risk_amount = 250,
          ts_risk_reward_ratios = [1, 2, 3], ts_pip_risk = 1 / 2\<rparr> \<and>
   calculate_trade_parameters 0 10000 (5 / 2) ''neutral''
       \<lparr>asset_type = Some ''stock'', indicators = None\<rparr> = Inl ZeroDivisionError \<and>
   100 < lit (1001 / 10) \<and> lit (1001 / 10) < lit (1006 / 10) \<and>
   lit (996 / 10) < lit (1001 / 10) \<and> lit (991 / 10) < lit (1001 / 10) \<and>
   lit (986 / 10) < lit (1001 / 10)"
proof -
  have n1: "''neutral'' \<noteq> ''bullish''" and n2: "'''' \<noteq> ''bullish''" by simp_all
  have e100: "lit (1001 / 10) = fadd 100 (fmul 100 (lit (1 / 1000)))"
    by (simp only: bearish_steps_100)
  have s100: "lit (1006 / 10) = fadd (lit (1001 / 10)) (1 / 2)"
    by (simp only: bearish_steps_100)
  have p100: "1 / 2 = \<bar>fsub (lit (1001 / 10)) (lit (1006 / 10))\<bar>"
    by (simp only: pip_distance_bearish_100)
  note at100 = non_bullish_bias_takes_bearish_branch[OF n2 stop_distance_100[symmetric] e100 s100 p100,
      of 10000 "5 / 2" "\<lparr>asset_type = Some ''stock'', indicators = None\<rparr>"]
  have nz: "((1::rat) / 2 \<noteq> 0) = True" by simp
  have range: "(1 / 10 ^ 300 \<le> (100::rat) \<and> (100::rat) \<le> 10 ^ 300) = True" by simp
  from at100
  have a: "calculate_trade_parameters 100 10000 (5 / 2) ''''
       \<lparr>asset_type = Some ''stock'', indicators = None\<rparr> =
     Inr \<lparr>ts_bias = '''', ts_entry = lit (1001 / 10), ts_stop_loss = lit (1006 / 10),
          ts_targets = \<lparr>tp1 = lit (996 / 10), tp2 = lit (991 / 10), tp3 = lit (986 / 10)\<rparr>,
          ts_position_size = 500, ts_risk_amount = 250,
          ts_risk_reward_ratios = [1, 2, 3], ts_pip_risk = 1 / 2\<rparr>"
    by (simp only: nz simp_thms is_forex_stock if_False bearish_steps_100 py_round_bearish_100
        py_round_100 risk_amount_10000)
  from at100
  have c: "100 < lit (1001 / 10) \<and> lit (1001 / 10) < lit (1006 / 10) \<and>
   lit (996 / 10) < lit (1001 / 10) \<and> lit (991 / 10) < lit (1001 / 10) \<and>
   lit (986 / 10) < lit (1001 / 10)"
    by (simp only: range simp_thms bearish_steps_100)
  have e0: "(0::rat) = fadd 0 (fmul 0 (lit (1 / 1000)))" by (simp only: bearish_steps_zero)
  have s0: "(0::rat) = fadd 0 0" by (simp only: bearish_steps_zero)
  have p0: "(0::rat) = \<bar>fsub 0 0\<bar>" by (simp only: bearish_steps_zero)
  from non_bullish_bias_takes_bearish_branch[OF n1 stop_distance_zero[symmetric] e0 s0 p0,
      of 10000 "5 / 2" "\<lparr>asset_type = Some ''stock'', indicators = None\<rparr>"]
  have b: "calculate_trade_parameters 0 10000 (5 / 2) ''neutral''
       \<lparr>asset_type = Some ''stock'', indicators = None\<rparr> = Inl ZeroDivisionError"
    by (simp only: simp_thms)
  from c have c1: "100 < lit (1001 / 10)" and c2: "lit (1001 / 10) < lit (1006 / 10)"
    and c3: "lit (996 / 10) < lit (1001 / 10)" and c4: "lit (991 / 10) < lit (1001 / 10)"
    and c5: "lit (986 / 10) < lit (1001 / 10)"
    by blast+
  from n1 n2 a b c1 c2 c3 c4 c5 show ?thesis by (intro conjI)
qed

section \<open>The confidence scorer\<close>

lemma if_add_bonus: "(if c then (a::int) + k else a) = a + (if c then k else 0)"
  by simp

lemma clamp_range: "(50::int) \<le> min 95 (max 50 x) \<and> min 95 (max 50 x) \<le> 95"
  by simp

lemma calculate_confidence_value:
  assumes "get_rsi market_data = PyNum rsi"
  shows "calculate_confidence analysis market_data randint =
     Inr (min 95 (max 50
       (60 + (if length (get_confluence_factors analysis) > 3 then 10 else 0)
           + (if length (get_confluence_factors analysis) > 5 then 10 else 0)
           + (if get_trend market_data = Some ''bullish'' \<or> get_trend market_data = Some ''bearish''
              then 5 else 0)
           + (if 30 < rsi \<and> rsi < 70 then 5 else 0)
           + randint)))"
  unfolding calculate_confidence_def Let_def assms pyval.case if_add_bonus
  by (simp only: insert_iff empty_iff simp_thms)

text \<open>
  With a number as the \<open>rsi\<close> entry the score is the clamped sum that the
  specification describes, for every list of factors, every trend entry and
  every adjustment, those of [-5,10] in particular; an absent \<open>rsi\<close> entry
  counts as 50.
\<close>

lemma confidence_score_numeric:
  assumes "confluence_factors analysis = Some factors"
    and "indicators market_data = Some \<lparr>ind_trend = trend, ind_rsi = Some (PyNum rsi)\<rparr>"
  shows "\<exists>score. calculate_confidence analysis market_data randint = Inr score \<and>
           50 \<le> score \<and> score \<le> 95 \<and>
           score = min 95 (max 50
             (60 + (if length factors > 3 then 10 else 0)
                 + (if length factors > 5 then 10 else 0)
                 + (if trend = Some ''bullish'' \<or> trend = Some ''bearish'' then 5 else 0)
                 + (if 30 < rsi \<and> rsi < 70 then 5 else 0)
                 + randint))"
proof -
  have r: "get_rsi market_data = PyNum rsi" by (simp add: get_rsi_def assms(2))
  have t: "get_trend market_data = trend" by (simp add: get_trend_def assms(2))
  have f: "get_confluence_factors analysis = factors"
    by (simp add: get_confluence_factors_def assms(1))
  show ?thesis
    unfolding calculate_confidence_value[OF r] t f using clamp_range by blast
qed

lemma confidence_score_absent_rsi:
  assumes "confluence_factors analysis = Some factors"
    and "indicators market_data = Some \<lparr>ind_trend = trend, ind_rsi = None\<rparr>"
  shows "calculate_confidence analysis market_data randint =
           Inr (min 95 (max 50
             (60 + (if length factors > 3 then 10 else 0)
                 + (if length factors > 5 then 10 else 0)
                 + (if trend = Some ''bullish'' \<or> trend = Some ''bearish'' then 5 else 0)
                 + 5 + randint)))"
proof -
  have r: "get_rsi market_data = PyNum 50" by (simp add: get_rsi_def assms(2))
  have t: "get_trend market_data = trend" by (simp add: get_trend_def assms(2))
  have f: "get_confluence_factors analysis = factors"
    by (simp add: get_confluence_factors_def assms(1))
  have mid: "((30::rat) < 50 \<and> (50::rat) < 70) = True" by simp
  show ?thesis
    unfolding calculate_confidence_value[OF r] t f
    by (simp only: mid if_True)
qed

text \<open>Some scores: each bonus on its own, and the two clamps.\<close>

lemma confidence_score_examples:
  "calculate_confidence \<lparr>confluence_factors = Some []\<rparr>
     \<lparr>asset_type = None,
      indicators = Some \<lparr>ind_trend = None, ind_rsi = Some (PyNum 80)\<rparr>\<rparr> 0 = Inr 60"
  "calculate_confidence \<lparr>confluence_factors = Some []\<rparr>
     \<lparr>asset_type = None,
      indicators = Some \<lparr>ind_trend = Some ''bullish'', ind_rsi = Some (PyNum 80)\<rparr>\<rparr> 0 = Inr 65"
  "calculate_confidence \<lparr>confluence_factors = Some []\<rparr>
     \<lparr>asset_type = None,
      indicators = Some \<lparr>ind_trend = Some ''sideways'', ind_rsi = Some (PyNum 55)\<rparr>\<rparr> 0 = Inr 65"
  "calculate_confidence \<lparr>confluence_factors = Some [''a'', ''b'', ''c'', ''d'']\<rparr>
     \<lparr>asset_type = None,
      indicators = Some \<lparr>ind_trend = None, ind_rsi = Some (PyNum 80)\<rparr>\<rparr> 0 = Inr 70"
  "calculate_confidence \<lparr>confluence_factors = Some [''a'', ''b'', ''c'', ''d'', ''e'', ''f'']\<rparr>
     \<lparr>asset_type = None,
      indicators = Some \<lparr>ind_trend = Some ''bearish'', ind_rsi = Some (PyNum 55)\<rparr>\<rparr> 10 = Inr 95"
  "calculate_confidence \<lparr>confluence_factors = None\<rparr>
     \<lparr>asset_type = None, indicators = None\<rparr> (- 5) = Inr 60"
  "calculate_confidence \<lparr>confluence_factors = Some []\<rparr>
     \<lparr>asset_type = None,
      indicators = Some \<lparr>ind_trend = None, ind_rsi = Some (PyNum 80)\<rparr>\<rparr> (- 15) = Inr 50"
  by (simp_all add: calculate_confidence_def get_rsi_def get_trend_def
      get_confluence_factors_def)

text \<open>With Python's \<open>None\<close> as the \<open>rsi\<close> entry the comparison raises.\<close>

lemma confidence_rsi_none:
  "get_rsi market_data = PyNone \<Longrightarrow>
   calculate_confidence analysis market_data randint = Inl TypeError"
  by (simp add: calculate_confidence_def Let_def)

text \<open>
  Claim C2 says that the scorer returns an integer in [50,95] for every rsi
  value. The code does not: the indicator fetcher stores Python's \<open>None\<close> as
  the \<open>rsi\<close> entry when the RSI is undefined, and the request handler passes
  its result on to the scorer. The default of \<open>.get('rsi', 50)\<close> covers an
  absent entry only, so with \<open>None\<close> the comparison \<open>30 < rsi < 70\<close> raises
  \<open>TypeError\<close>, whatever the factors, the trend and the adjustment are; with
  the entry absent, the same input scores 70.
\<close>

theorem confidence_rsi_none_raises:
  "calculate_confidence analysis
     \<lparr>asset_type = asset, indicators = Some \<lparr>ind_trend = trend, ind_rsi = Some PyNone\<rparr>\<rparr>
     randint = Inl TypeError \<and>
   calculate_confidence \<lparr>confluence_factors = Some []\<rparr>
     \<lparr>asset_type = None,
      indicators = Some \<lparr>ind_trend = Some ''bullish'', ind_rsi = Some PyNone\<rparr>\<rparr> 0 =
     Inl TypeError \<and>
   calculate_confidence \<lparr>confluence_factors = Some []\<rparr>
     \<lparr>asset_type = None,
      indicators = Some \<lparr>ind_trend = Some ''bullish'', ind_rsi = None\<rparr>\<rparr> 0 = Inr 70"
proof (intro conjI)
  show "calculate_confidence analysis
     \<lparr>asset_type = asset, indicators = Some \<lparr>ind_trend = trend, ind_rsi = Some PyNone\<rparr>\<rparr>
     randint = Inl TypeError"
    by (rule confidence_rsi_none) (simp add: get_rsi_def)
  show "calculate_confidence \<lparr>confluence_factors = Some []\<rparr>
     \<lparr>asset_type = None,
      indicators = Some \<lparr>ind_trend = Some ''bullish'', ind_rsi = Some PyNone\<rparr>\<rparr> 0 =
     Inl TypeError"
    by (rule confidence_rsi_none) (simp add: get_rsi_def)
  show "calculate_confidence \<lparr>confluence_factors = Some []\<rparr>
     \<lparr>asset_type = None,
      indicators = Some \<lparr>ind_trend = Some ''bullish'', ind_rsi = None\<rparr>\<rparr> 0 = Inr 70"
    by (simp add: calculate_confidence_def get_rsi_def get_trend_def
        get_confluence_factors_def)
qed

section \<open>The detectors\<close>

subsection \<open>Loops that append\<close>

lemma foldl_append_opt:
  "foldl (\<lambda>acc i. append_opt acc (f i)) acc xs = acc @ List.map_filter f xs"
  by (induction xs arbitrary: acc) (simp_all add: append_opt_def split: option.splits)

lemma add_zones_eq:
  "add_zones side zones counts =
     zones @ map (\<lambda>(price, count). \<lparr>lz_type = side, lz_level = price, lz_strength = count\<rparr>)
               (filter (\<lambda>(price, count). 2 \<le> count) counts)"
  unfolding add_zones_def
  by (induction counts arbitrary: zones) (simp_all split: prod.splits)

text \<open>The loops read inside the frame only.\<close>

lemma order_block_indices_in_range:
  "i \<in> set [2..<length price_data - 2] \<Longrightarrow> i + 2 < length price_data"
  by auto

lemma fvg_indices_in_range:
  "i \<in> set [1..<length price_data - 1] \<Longrightarrow> 0 < i \<and> i + 1 < length price_data"
  by auto

lemma length_last_n: "length (last_n n xs) \<le> n"
  by (simp add: last_n_def)

lemma set_last_n: "set (last_n n xs) \<subseteq> set xs"
  by (simp add: last_n_def set_drop_subset)

lemma all_fvgs_eq:
  "all_fvgs price_data = List.map_filter (fvg_at price_data) [1..<length price_data - 1]"
  by (simp add: all_fvgs_def foldl_append_opt)

lemma calculate_fair_value_gaps_eq:
  "calculate_fair_value_gaps price_data =
     last_n 3 (List.map_filter (fvg_at price_data) [1..<length price_data - 1])"
  by (simp add: calculate_fair_value_gaps_def all_fvgs_eq Let_def last_n_def)

lemma find_order_blocks_eq:
  "find_order_blocks price_data =
     last_n 5 (List.map_filter (order_block_at price_data) [2..<length price_data - 2])"
  by (simp add: find_order_blocks_def foldl_append_opt Let_def last_n_def)

lemma liquidity_pool_eq:
  "liquidity_pool price_data =
     map (\<lambda>(price, count). \<lparr>lz_type = ''buy_side'', lz_level = price, lz_strength = count\<rparr>)
       (filter (\<lambda>(price, count). 2 \<le> count)
          (value_counts (map (\<lambda>c. np_round (High c) 2) price_data))) @
     map (\<lambda>(price, count). \<lparr>lz_type = ''sell_side'', lz_level = price, lz_strength = count\<rparr>)
       (filter (\<lambda>(price, count). 2 \<le> count)
          (value_counts (map (\<lambda>c. np_round (Low c) 2) price_data)))"
  by (simp add: liquidity_pool_def add_zones_eq Let_def)

lemma liquidity_pool_strength: "z \<in> set (liquidity_pool price_data) \<Longrightarrow> 2 \<le> lz_strength z"
  by (auto simp add: liquidity_pool_eq)

subsection \<open>Series that are too short\<close>

lemma value_counts_Nil: "value_counts [] = []"
  by (simp add: value_counts_def first_seen_def sorted_desc_def)

lemma value_counts_single: "value_counts [x] = [(x, 1)]"
  by (simp add: value_counts_def first_seen_def sorted_desc_def)

lemma short_series:
  "length xs < 2 \<Longrightarrow> xs = [] \<or> (\<exists>x. xs = [x])"
  by (cases xs) (auto simp add: length_Suc_conv)

text \<open>
  Claim C5. A series of fewer than 5 candles gives no order blocks, one of
  fewer than 3 no fair value gaps, and one of fewer than 2 no liquidity zones:
  each detector returns the empty list and raises nothing.
\<close>

theorem short_series_give_empty_results:
  "(length price_data < 5 \<longrightarrow> find_order_blocks price_data = []) \<and>
   (length price_data < 3 \<longrightarrow> calculate_fair_value_gaps price_data = []) \<and>
   (length price_data < 2 \<longrightarrow> find_liquidity_zones price_data = [])"
proof (intro conjI impI)
  assume "length price_data < 5"
  then have e: "[2..<length price_data - 2] = []" by simp
  show "find_order_blocks price_data = []"
    unfolding find_order_blocks_eq e by (simp add: last_n_def)
next
  assume "length price_data < 3"
  then have e: "[1..<length price_data - 1] = []" by simp
  show "calculate_fair_value_gaps price_data = []"
    unfolding calculate_fair_value_gaps_eq e by (simp add: last_n_def)
next
  assume "length price_data < 2"
  then have "liquidity_pool price_data = []"
    using short_series[of price_data]
    by (auto simp add: liquidity_pool_eq value_counts_Nil value_counts_single)
  then show "find_liquidity_zones price_data = []"
    by (simp add: find_liquidity_zones_def sorted_desc_def)
qed

theorem short_series_give_empty_results_witness:
  "length [bar 1 100 102 99 100] < 2 \<and>
   find_order_blocks [bar 1 100 102 99 100] = [] \<and>
   calculate_fair_value_gaps [bar 1 100 102 99 100] = [] \<and>
   find_liquidity_zones [bar 1 100 102 99 100] = [] \<and>
   find_order_blocks [] = [] \<and> calculate_fair_value_gaps [] = [] \<and> find_liquidity_zones [] = []"
  using short_series_give_empty_results[of "[bar 1 100 102 99 100]"]
    short_series_give_empty_results[of "[]"]
  by simp

subsection \<open>Ranking of the liquidity zones\<close>

lemma sorted_desc_sorted:
  "sorted_wrt (\<lambda>a b. k a \<ge> k b) (sorted_desc k xs)"
proof -
  have "sorted (map (\<lambda>x. - int (k x)) (sort_key (\<lambda>x. - int (k x)) xs))"
    by (rule sorted_sort_key)
  then show ?thesis
    by (simp add: sorted_desc_def sorted_map)
qed

lemma np_round_levels:
  "np_round 102 2 = 102" "np_round 101 2 = 101" "np_round 103 2 = 103"
  "np_round 99 2 = 99" "np_round 98 2 = 98" "np_round 97 2 = 97" "np_round 96 2 = 96"
  "np_round 90 2 = 90"
  by code_simp+

lemma tied_highs_zones:
  "find_liquidity_zones
     [bar 1 100 102 99 100, bar 2 100 102 98 100, bar 3 100 101 97 100, bar 4 100 101 96 100] =
   [\<lparr>lz_type = ''buy_side'', lz_level = 102, lz_strength = 2\<rparr>,
    \<lparr>lz_type = ''buy_side'', lz_level = 101, lz_strength = 2\<rparr>]"
  by (simp add: find_liquidity_zones_def liquidity_pool_eq value_counts_def first_seen_def
      sorted_desc_def bar_def np_round_levels)

lemma six_zones:
  "find_liquidity_zones
     [bar 1 100 101 99 100, bar 2 100 102 99 100, bar 3 100 101 97 100,
      bar 4 100 102 99 100, bar 5 100 103 97 100, bar 6 100 102 90 100] =
   [\<lparr>lz_type = ''buy_side'', lz_level = 102, lz_strength = 3\<rparr>,
    \<lparr>lz_type = ''sell_side'', lz_level = 99, lz_strength = 3\<rparr>,
    \<lparr>lz_type = ''buy_side'', lz_level = 101, lz_strength = 2\<rparr>,
    \<lparr>lz_type = ''sell_side'', lz_level = 97, lz_strength = 2\<rparr>]"
  by (simp add: find_liquidity_zones_def liquidity_pool_eq value_counts_def first_seen_def
      sorted_desc_def bar_def np_round_levels)

text \<open>
  Claim C6. For every series the liquidity zones come out sorted by strength,
  strongest first, there are at most 5 of them, and each has strength at
  least 2.
\<close>

theorem liquidity_zones_ranked:
  "sorted_wrt (\<lambda>a b. lz_strength a \<ge> lz_strength b) (find_liquidity_zones price_data) \<and>
   length (find_liquidity_zones price_data) \<le> 5 \<and>
   (\<forall>z \<in> set (find_liquidity_zones price_data). 2 \<le> lz_strength z)"
proof (intro conjI ballI)
  show "sorted_wrt (\<lambda>a b. lz_strength a \<ge> lz_strength b) (find_liquidity_zones price_data)"
    unfolding find_liquidity_zones_def by (intro sorted_wrt_take sorted_desc_sorted)
  show "length (find_liquidity_zones price_data) \<le> 5"
    by (simp add: find_liquidity_zones_def)
next
  fix z assume "z \<in> set (find_liquidity_zones price_data)"
  then have "z \<in> set (sorted_desc lz_strength (liquidity_pool price_data))"
    unfolding find_liquidity_zones_def by (rule in_set_takeD)
  then have "z \<in> set (liquidity_pool price_data)"
    by (simp add: sorted_desc_def)
  then show "2 \<le> lz_strength z" by (rule liquidity_pool_strength)
qed

theorem liquidity_zones_ranked_witness:
  "find_liquidity_zones
     [bar 1 100 101 99 100, bar 2 100 102 99 100, bar 3 100 101 97 100,
      bar 4 100 102 99 100, bar 5 100 103 97 100, bar 6 100 102 90 100] =
   [\<lparr>lz_type = ''buy_side'', lz_level = 102, lz_strength = 3\<rparr>,
    \<lparr>lz_type = ''sell_side'', lz_level = 99, lz_strength = 3\<rparr>,
    \<lparr>lz_type = ''buy_side'', lz_level = 101, lz_strength = 2\<rparr>,
    \<lparr>lz_type = ''sell_side'', lz_level = 97, lz_strength = 2\<rparr>] \<and>
   2 \<le> lz_strength (last (find_liquidity_zones
     [bar 1 100 101 99 100, bar 2 100 102 99 100, bar 3 100 101 97 100,
      bar 4 100 102 99 100, bar 5 100 103 97 100, bar 6 100 102 90 100]))"
  using liquidity_zones_ranked[of
     "[bar 1 100 101 99 100, bar 2 100 102 99 100, bar 3 100 101 97 100,
      bar 4 100 102 99 100, bar 5 100 103 97 100, bar 6 100 102 90 100]"]
  unfolding six_zones by simp

subsection \<open>Zones of equal strength\<close>

lemma sorted_desc_stable:
  "filter (\<lambda>z. key z = k) (sorted_desc key xs) = filter (\<lambda>z. key z = k) xs"
proof -
  have "filter (\<lambda>z. - int (key z) = - int k) (sort_key (\<lambda>x. - int (key x)) xs) =
        filter (\<lambda>z. - int (key z) = - int k) xs"
    by (rule sort_key_stable)
  then show ?thesis
    by (simp add: sorted_desc_def)
qed

lemma value_counts_stable:
  "filter (\<lambda>(v, c). c = k) (value_counts xs) =
     map (\<lambda>v. (v, k)) (filter (\<lambda>v. count_list xs v = k) (first_seen xs))"
proof -
  have "filter (\<lambda>(v, c). c = k) (value_counts xs) =
        filter (\<lambda>p. snd p = k) (sorted_desc snd (map (\<lambda>v. (v, count_list xs v)) (first_seen xs)))"
    by (simp only: value_counts_def case_prod_unfold)
  also have "\<dots> = filter (\<lambda>p. snd p = k) (map (\<lambda>v. (v, count_list xs v)) (first_seen xs))"
    by (rule sorted_desc_stable)
  also have "\<dots> = map (\<lambda>v. (v, count_list xs v)) (filter (\<lambda>v. count_list xs v = k) (first_seen xs))"
    by (simp add: filter_map comp_def)
  also have "\<dots> = map (\<lambda>v. (v, k)) (filter (\<lambda>v. count_list xs v = k) (first_seen xs))"
    by (rule map_cong) auto
  finally show ?thesis .
qed

lemma zones_of_strength:
  "filter (\<lambda>z. lz_strength z = k)
     (map (\<lambda>(price, count). \<lparr>lz_type = side, lz_level = price, lz_strength = count\<rparr>)
        (filter (\<lambda>(price, count). 2 \<le> count) (value_counts xs))) =
   (if 2 \<le> k
    then map (\<lambda>v. \<lparr>lz_type = side, lz_level = v, lz_strength = k\<rparr>)
           (filter (\<lambda>v. count_list xs v = k) (first_seen xs))
    else [])"
proof -
  have "filter (\<lambda>z. lz_strength z = k)
     (map (\<lambda>(price, count). \<lparr>lz_type = side, lz_level = price, lz_strength = count\<rparr>)
        (filter (\<lambda>(price, count). 2 \<le> count) (value_counts xs))) =
     map (\<lambda>(price, count). \<lparr>lz_type = side, lz_level = price, lz_strength = count\<rparr>)
        (filter (\<lambda>(price, count). 2 \<le> k) (filter (\<lambda>(v, c). c = k) (value_counts xs)))"
    by (auto simp add: filter_map comp_def case_prod_beta intro!: filter_cong arg_cong[where f="map _"])
  also have "\<dots> = (if 2 \<le> k
    then map (\<lambda>v. \<lparr>lz_type = side, lz_level = v, lz_strength = k\<rparr>)
           (filter (\<lambda>v. count_list xs v = k) (first_seen xs))
    else [])"
    by (simp add: value_counts_stable comp_def)
  finally show ?thesis .
qed

text \<open>
  Claim C7 says that among zones of equal strength the buy-side zones come
  before the sell-side ones, and that within a side they appear in ascending
  order of their price level. The second part does not hold: the levels are
  taken in the order of \<open>value_counts\<close>, which among equal counts is the order
  of first occurrence in the series. With the rounded high 102 at the first
  two candles and 101 at the next two, the zone at 102 comes before the zone
  at 101.
\<close>

theorem ascending_price_order_counterexample:
  "find_liquidity_zones
     [bar 1 100 102 99 100, bar 2 100 102 98 100, bar 3 100 101 97 100, bar 4 100 101 96 100] =
   [\<lparr>lz_type = ''buy_side'', lz_level = 102, lz_strength = 2\<rparr>,
    \<lparr>lz_type = ''buy_side'', lz_level = 101, lz_strength = 2\<rparr>] \<and>
   \<not> sorted (map lz_level (find_liquidity_zones
     [bar 1 100 102 99 100, bar 2 100 102 98 100, bar 3 100 101 97 100, bar 4 100 101 96 100]))"
  unfolding tied_highs_zones by simp

text \<open>
  Claim C7, amended. The first 5 of the merged pool, sorted by strength with
  the strongest first, are returned. Among the zones of one strength \<open>k\<close> the
  buy-side zones come before the sell-side zones, and within each side the
  zones appear in the order in which their rounded price levels first occur
  in the series.
\<close>

theorem equal_strength_zones_in_encounter_order:
  assumes "highs = map (\<lambda>c. np_round (High c) 2) price_data"
    and "lows = map (\<lambda>c. np_round (Low c) 2) price_data"
    and "ranked = sorted_desc lz_strength (liquidity_pool price_data)"
  shows "find_liquidity_zones price_data = take 5 ranked \<and>
         sorted_wrt (\<lambda>a b. lz_strength a \<ge> lz_strength b) ranked \<and>
         (\<forall>k. filter (\<lambda>z. lz_strength z = k) ranked =
            (if 2 \<le> k
             then map (\<lambda>v. \<lparr>lz_type = ''buy_side'', lz_level = v, lz_strength = k\<rparr>)
                    (filter (\<lambda>v. count_list highs v = k) (first_seen highs)) @
                  map (\<lambda>v. \<lparr>lz_type = ''sell_side'', lz_level = v, lz_strength = k\<rparr>)
                    (filter (\<lambda>v. count_list lows v = k) (first_seen lows))
             else []))"
proof (intro conjI allI)
  show "find_liquidity_zones price_data = take 5 ranked"
    by (simp add: find_liquidity_zones_def assms(3))
  show "sorted_wrt (\<lambda>a b. lz_strength a \<ge> lz_strength b) ranked"
    unfolding assms(3) by (rule sorted_desc_sorted)
next
  fix k
  have "filter (\<lambda>z. lz_strength z = k) ranked =
        filter (\<lambda>z. lz_strength z = k) (liquidity_pool price_data)"
    unfolding assms(3) by (rule sorted_desc_stable)
  also have "\<dots> = (if 2 \<le> k
             then map (\<lambda>v. \<lparr>lz_type = ''buy_side'', lz_level = v, lz_strength = k\<rparr>)
                    (filter (\<lambda>v. count_list highs v = k) (first_seen highs)) @
                  map (\<lambda>v. \<lparr>lz_type = ''sell_side'', lz_level = v, lz_strength = k\<rparr>)
                    (filter (\<lambda>v. count_list lows v = k) (first_seen lows))
             else [])"
    unfolding liquidity_pool_eq filter_append zones_of_strength assms(1,2) by simp
  finally show "filter (\<lambda>z. lz_strength z = k) ranked =
            (if 2 \<le> k
             then map (\<lambda>v. \<lparr>lz_type = ''buy_side'', lz_level = v, lz_strength = k\<rparr>)
                    (filter (\<lambda>v. count_list highs v = k) (first_seen highs)) @
                  map (\<lambda>v. \<lparr>lz_type = ''sell_side'', lz_level = v, lz_strength = k\<rparr>)
                    (filter (\<lambda>v. count_list lows v = k) (first_seen lows))
             else [])" .
qed

lemma pool_of_pairs:
  "sorted_desc lz_strength (liquidity_pool
     [bar 1 100 103 99 100, bar 2 100 103 99 100, bar 3 100 101 98 100,
      bar 4 100 101 98 100, bar 5 100 102 97 100, bar 6 100 102 97 100]) =
   [\<lparr>lz_type = ''buy_side'', lz_level = 103, lz_strength = 2\<rparr>,
    \<lparr>lz_type = ''buy_side'', lz_level = 101, lz_strength = 2\<rparr>,
    \<lparr>lz_type = ''buy_side'', lz_level = 102, lz_strength = 2\<rparr>,
    \<lparr>lz_type = ''sell_side'', lz_level = 99, lz_strength = 2\<rparr>,
    \<lparr>lz_type = ''sell_side'', lz_level = 98, lz_strength = 2\<rparr>,
    \<lparr>lz_type = ''sell_side'', lz_level = 97, lz_strength = 2\<rparr>]"
  by (simp add: liquidity_pool_eq value_counts_def first_seen_def
      sorted_desc_def bar_def np_round_levels)

theorem equal_strength_zones_in_encounter_order_witness:
  "find_liquidity_zones
     [bar 1 100 103 99 100, bar 2 100 103 99 100, bar 3 100 101 98 100,
      bar 4 100 101 98 100, bar 5 100 102 97 100, bar 6 100 102 97 100] =
   [\<lparr>lz_type = ''buy_side'', lz_level = 103, lz_strength = 2\<rparr>,
    \<lparr>lz_type = ''buy_side'', lz_level = 101, lz_strength = 2\<rparr>,
    \<lparr>lz_type = ''buy_side'', lz_level = 102, lz_strength = 2\<rparr>,
    \<lparr>lz_type = ''sell_side'', lz_level = 99, lz_strength = 2\<rparr>,
    \<lparr>lz_type = ''sell_side'', lz_level = 98, lz_strength = 2\<rparr>] \<and>
   first_seen (map (\<lambda>c. np_round (High c) 2)
     [bar 1 100 103 99 100, bar 2 100 103 99 100, bar 3 100 101 98 100,
      bar 4 100 101 98 100, bar 5 100 102 97 100, bar 6 100 102 97 100]) = [103, 101, 102]"
  using equal_strength_zones_in_encounter_order[OF refl refl refl, of
     "[bar 1 100 103 99 100, bar 2 100 103 99 100, bar 3 100 101 98 100,
      bar 4 100 101 98 100, bar 5 100 102 97 100, bar 6 100 102 97 100]"]
  unfolding pool_of_pairs by (simp add: first_seen_def bar_def np_round_levels)

subsection \<open>Fair value gaps\<close>

lemma fvg_at_size:
  assumes "fvg_at price_data i = Some g"
  shows "fmul (Close (price_data ! i)) (lit (1 / 1000)) < fvg_size g"
proof -
  let ?prev = "price_data ! (i - 1)" and ?nxt = "price_data ! (i + 1)"
  let ?t = "fmul (Close (price_data ! i)) (lit (1 / 1000))"
  show ?thesis
  proof (cases "Low ?nxt > High ?prev")
    case True
    with assms have "?t < fsub (Low ?nxt) (High ?prev) \<and> fvg_size g = fsub (Low ?nxt) (High ?prev)"
      unfolding fvg_at_def Let_def by (simp split: if_splits) (metis fair_value_gap.select_convs(5))
    then show ?thesis by simp
  next
    case False
    with assms have "?t < fsub (Low ?prev) (High ?nxt) \<and> fvg_size g = fsub (Low ?prev) (High ?nxt)"
      unfolding fvg_at_def Let_def by (simp split: if_splits) (metis fair_value_gap.select_convs(5))
    then show ?thesis by simp
  qed
qed

lemma in_set_map_filter:
  "y \<in> set (List.map_filter f xs) \<longleftrightarrow> (\<exists>x \<in> set xs. f x = Some y)"
  by (induction xs) (auto simp add: split: option.splits)

lemma fvg_member:
  assumes "g \<in> set (calculate_fair_value_gaps price_data)"
  shows "\<exists>i. 1 \<le> i \<and> i + 1 < length price_data \<and> fvg_at price_data i = Some g \<and>
          fmul (Close (price_data ! i)) (lit (1 / 1000)) < fvg_size g"
proof -
  from assms have "g \<in> set (last_n 3 (List.map_filter (fvg_at price_data) [1..<length price_data - 1]))"
    by (simp only: calculate_fair_value_gaps_eq)
  then have "g \<in> set (List.map_filter (fvg_at price_data) [1..<length price_data - 1])"
    using set_last_n by (rule rev_subsetD)
  then obtain i where i: "i \<in> set [1..<length price_data - 1]" and g: "fvg_at price_data i = Some g"
    by (auto simp only: in_set_map_filter)
  from i have "1 \<le> i" "i + 1 < length price_data" by (simp_all add: less_diff_conv)
  with g fvg_at_size[OF g] show ?thesis by blast
qed

text \<open>
  Claim C8. Every fair value gap that is returned comes from an index \<open>i\<close>
  with a candle on either side, and its size is greater than 0.1 percent of
  the close of the candle at \<open>i\<close>, the one the comparison skips (the product
  \<open>close * 0.001\<close> as the code computes it). At most 3 gaps are returned: the
  last 3 of the matches taken in the order of their indices.
\<close>

theorem fair_value_gaps_last_three:
  "length (calculate_fair_value_gaps price_data) \<le> 3 \<and>
   calculate_fair_value_gaps price_data =
     last_n 3 (List.map_filter (fvg_at price_data) [1..<length price_data - 1]) \<and>
   (\<forall>g \<in> set (calculate_fair_value_gaps price_data).
      \<exists>i. 1 \<le> i \<and> i + 1 < length price_data \<and> fvg_at price_data i = Some g \<and>
          fmul (Close (price_data ! i)) (lit (1 / 1000)) < fvg_size g)"
proof (intro conjI ballI)
  show "length (calculate_fair_value_gaps price_data) \<le> 3"
    unfolding calculate_fair_value_gaps_eq by (rule length_last_n)
  show "calculate_fair_value_gaps price_data =
     last_n 3 (List.map_filter (fvg_at price_data) [1..<length price_data - 1])"
    by (rule calculate_fair_value_gaps_eq)
next
  fix g assume "g \<in> set (calculate_fair_value_gaps price_data)"
  then show "\<exists>i. 1 \<le> i \<and> i + 1 < length price_data \<and> fvg_at price_data i = Some g \<and>
          fmul (Close (price_data ! i)) (lit (1 / 1000)) < fvg_size g"
    by (rule fvg_member)
qed

lemma upt_1_5: "[1..<5] = [1, 2, 3, 4]"
  by code_simp

lemma rising_gaps:
  "fvg_at [bar 1 101 105 100 102, bar 2 111 115 110 112, bar 3 121 125 120 122,
           bar 4 131 135 130 132, bar 5 141 145 140 142, bar 6 151 155 150 152] 1 =
     Some \<lparr>fvg_type = ''bullish'', fvg_upper = 120, fvg_lower = 105,
           fvg_midpoint = 225 / 2, fvg_size = 15\<rparr>"
  "fvg_at [bar 1 101 105 100 102, bar 2 111 115 110 112, bar 3 121 125 120 122,
           bar 4 131 135 130 132, bar 5 141 145 140 142, bar 6 151 155 150 152] 2 =
     Some \<lparr>fvg_type = ''bullish'', fvg_upper = 130, fvg_lower = 115,
           fvg_midpoint = 245 / 2, fvg_size = 15\<rparr>"
  "fvg_at [bar 1 101 105 100 102, bar 2 111 115 110 112, bar 3 121 125 120 122,
           bar 4 131 135 130 132, bar 5 141 145 140 142, bar 6 151 155 150 152] 3 =
     Some \<lparr>fvg_type = ''bullish'', fvg_upper = 140, fvg_lower = 125,
           fvg_midpoint = 265 / 2, fvg_size = 15\<rparr>"
  "fvg_at [bar 1 101 105 100 102, bar 2 111 115 110 112, bar 3 121 125 120 122,
           bar 4 131 135 130 132, bar 5 141 145 140 142, bar 6 151 155 150 152] 4 =
     Some \<lparr>fvg_type = ''bullish'', fvg_upper = 150, fvg_lower = 135,
           fvg_midpoint = 285 / 2, fvg_size = 15\<rparr>"
  by code_simp+

lemma rising_series_gaps:
  "calculate_fair_value_gaps
     [bar 1 101 105 100 102, bar 2 111 115 110 112, bar 3 121 125 120 122,
      bar 4 131 135 130 132, bar 5 141 145 140 142, bar 6 151 155 150 152] =
   [\<lparr>fvg_type = ''bullish'', fvg_upper = 130, fvg_lower = 115,
     fvg_midpoint = 245 / 2, fvg_size = 15\<rparr>,
    \<lparr>fvg_type = ''bullish'', fvg_upper = 140, fvg_lower = 125,
     fvg_midpoint = 265 / 2, fvg_size = 15\<rparr>,
    \<lparr>fvg_type = ''bullish'', fvg_upper = 150, fvg_lower = 135,
     fvg_midpoint = 285 / 2, fvg_size = 15\<rparr>]"
proof -
  let ?ex = "[bar 1 101 105 100 102, bar 2 111 115 110 112, bar 3 121 125 120 122,
      bar 4 131 135 130 132, bar 5 141 145 140 142, bar 6 151 155 150 152]"
  have idx: "[1..<length ?ex - 1] = [1, 2, 3, 4]"
    using upt_1_5 by simp
  have matches: "List.map_filter (fvg_at ?ex) [1, 2, 3, 4] =
    [\<lparr>fvg_type = ''bullish'', fvg_upper = 120, fvg_lower = 105,
      fvg_midpoint = 225 / 2, fvg_size = 15\<rparr>,
     \<lparr>fvg_type = ''bullish'', fvg_upper = 130, fvg_lower = 115,
      fvg_midpoint = 245 / 2, fvg_size = 15\<rparr>,
     \<lparr>fvg_type = ''bullish'', fvg_upper = 140, fvg_lower = 125,
      fvg_midpoint = 265 / 2, fvg_size = 15\<rparr>,
     \<lparr>fvg_type = ''bullish'', fvg_upper = 150, fvg_lower = 135,
      fvg_midpoint = 285 / 2, fvg_size = 15\<rparr>]"
    by (simp only: map_filter_simps rising_gaps option.case)
  show ?thesis
    unfolding calculate_fair_value_gaps_eq idx matches by (simp add: last_n_def)
qed

theorem fair_value_gaps_last_three_witness:
  "calculate_fair_value_gaps
     [bar 1 101 105 100 102, bar 2 111 115 110 112, bar 3 121 125 120 122,
      bar 4 131 135 130 132, bar 5 141 145 140 142, bar 6 151 155 150 152] =
   [\<lparr>fvg_type = ''bullish'', fvg_upper = 130, fvg_lower = 115,
     fvg_midpoint = 245 / 2, fvg_size = 15\<rparr>,
    \<lparr>fvg_type = ''bullish'', fvg_upper = 140, fvg_lower = 125,
     fvg_midpoint = 265 / 2, fvg_size = 15\<rparr>,
    \<lparr>fvg_type = ''bullish'', fvg_upper = 150, fvg_lower = 135,
     fvg_midpoint = 285 / 2, fvg_size = 15\<rparr>] \<and>
   (\<exists>i. fvg_at
     [bar 1 101 105 100 102, bar 2 111 115 110 112, bar 3 121 125 120 122,
      bar 4 131 135 130 132, bar 5 141 145 140 142, bar 6 151 155 150 152] i =
       Some \<lparr>fvg_type = ''bullish'', fvg_upper = 130, fvg_lower = 115,
             fvg_midpoint = 245 / 2, fvg_size = 15\<rparr> \<and>
      fmul (Close ([bar 1 101 105 100 102, bar 2 111 115 110 112, bar 3 121 125 120 122,
      bar 4 131 135 130 132, bar 5 141 145 140 142, bar 6 151 155 150 152] ! i)) (lit (1 / 1000)) < 15)"
  using fair_value_gaps_last_three[of
     "[bar 1 101 105 100 102, bar 2 111 115 110 112, bar 3 121 125 120 122,
      bar 4 131 135 130 132, bar 5 141 145 140 142, bar 6 151 155 150 152]"]
  unfolding rising_series_gaps by auto

end
